theory Spec2Isabelle
  imports Main "HOL-Library.Sublist"
begin

section \<open>Data model (models/database.py)\<close>

text \<open>
  Timestamps are the values of \<^verbatim>\<open>datetime.utcnow()\<close>, counted in whole seconds since
  the epoch. JSON columns are opaque to every operation below and are kept as text.
\<close>

type_synonym timestamp = int
type_synonym json = string

record User =
  User_id :: string
  User_email :: string
  User_name :: "string option"
  User_picture :: "string option"
  User_google_id :: string
  User_created_at :: timestamp
  User_last_login :: "timestamp option"

text \<open>
  \<^verbatim>\<open>Chart.is_public\<close> is an Integer column (0 = private, 1 = public); the counters are
  Integer columns as well. \<^verbatim>\<open>Chart.updated_at\<close> is declared with
  \<^verbatim>\<open>onupdate=datetime.utcnow\<close>: every UPDATE of a chart row that does not set the column
  itself stores the current time in it.
\<close>

record Chart =
  Chart_id :: string
  Chart_user_id :: string
  Chart_title :: "string option"
  Chart_description :: "string option"
  Chart_data :: json
  Chart_config :: json
  Chart_source_type :: "string option"
  Chart_source_url :: "string option"
  Chart_is_public :: int
  Chart_view_count :: int
  Chart_like_count :: int
  Chart_created_at :: timestamp
  Chart_updated_at :: timestamp

record SavedChart =
  SavedChart_id :: string
  SavedChart_user_id :: string
  SavedChart_chart_id :: string
  SavedChart_created_at :: timestamp

record Like =
  Like_id :: string
  Like_user_id :: string
  Like_chart_id :: string
  Like_created_at :: timestamp

text \<open>The session's view of the store: one list of rows per table, in insertion order.\<close>

record db =
  users :: "User list"
  charts :: "Chart list"
  saved_charts :: "SavedChart list"
  likes :: "Like list"

text \<open>\<^verbatim>\<open>query.filter(...).first()\<close>: the first row that satisfies the filter, or None.\<close>

definition first :: "('a \<Rightarrow> bool) \<Rightarrow> 'a list \<Rightarrow> 'a option" where
  "first P rows = find P rows"

text \<open>
  Committing a modified ORM object writes it back over the row it was loaded from, which
  is the first row the query matched.
\<close>

fun write_back :: "('a \<Rightarrow> bool) \<Rightarrow> 'a \<Rightarrow> 'a list \<Rightarrow> 'a list" where
  "write_back P y [] = []"
| "write_back P y (x # xs) = (if P x then y # xs else x # write_back P y xs)"

section \<open>Responses and errors (schemas.py, fastapi.HTTPException)\<close>

datatype HTTPException = HTTPException (status_code: int) (detail: string)

record UserResponse =
  UserResponse_email :: string
  UserResponse_name :: "string option"
  UserResponse_picture :: "string option"
  UserResponse_id :: string
  UserResponse_created_at :: timestamp
  UserResponse_last_login :: "timestamp option"

record ChartResponse =
  ChartResponse_id :: string
  ChartResponse_user_id :: string
  ChartResponse_title :: "string option"
  ChartResponse_description :: "string option"
  ChartResponse_data :: json
  ChartResponse_config :: json
  ChartResponse_source_type :: "string option"
  ChartResponse_source_url :: "string option"
  ChartResponse_is_public :: bool
  ChartResponse_view_count :: int
  ChartResponse_like_count :: int
  ChartResponse_created_at :: timestamp
  ChartResponse_updated_at :: timestamp
  ChartResponse_is_liked :: bool
  ChartResponse_is_saved :: bool
  ChartResponse_user :: "UserResponse option"

definition model_validate :: "User \<Rightarrow> UserResponse" where
  "model_validate u =
     \<lparr>UserResponse_email = User_email u, UserResponse_name = User_name u,
      UserResponse_picture = User_picture u, UserResponse_id = User_id u,
      UserResponse_created_at = User_created_at u,
      UserResponse_last_login = User_last_login u\<rparr>"

section \<open>Chart endpoints (main.py)\<close>

definition chart_to_response :: "Chart \<Rightarrow> User option \<Rightarrow> db \<Rightarrow> ChartResponse" where
  "chart_to_response chart current_user d =
     (let is_liked = (case current_user of
                        None \<Rightarrow> False
                      | Some u \<Rightarrow> first (\<lambda>l. Like_user_id l = User_id u \<and>
                                            Like_chart_id l = Chart_id chart) (likes d) \<noteq> None);
          is_saved = (case current_user of
                        None \<Rightarrow> False
                      | Some u \<Rightarrow> first (\<lambda>s. SavedChart_user_id s = User_id u \<and>
                                            SavedChart_chart_id s = Chart_id chart)
                                        (saved_charts d) \<noteq> None)
      in \<lparr>ChartResponse_id = Chart_id chart,
          ChartResponse_user_id = Chart_user_id chart,
          ChartResponse_title = Chart_title chart,
          ChartResponse_description = Chart_description chart,
          ChartResponse_data = Chart_data chart,
          ChartResponse_config = Chart_config chart,
          ChartResponse_source_type = Chart_source_type chart,
          ChartResponse_source_url = Chart_source_url chart,
          ChartResponse_is_public = (Chart_is_public chart \<noteq> 0),
          ChartResponse_view_count = Chart_view_count chart,
          ChartResponse_like_count = Chart_like_count chart,
          ChartResponse_created_at = Chart_created_at chart,
          ChartResponse_updated_at = Chart_updated_at chart,
          ChartResponse_is_liked = is_liked,
          ChartResponse_is_saved = is_saved,
          ChartResponse_user =
            map_option model_validate
              (first (\<lambda>u. User_id u = Chart_user_id chart) (users d))\<rparr>)"

text \<open>
  \<^verbatim>\<open>GET /api/charts/{chart_id}\<close>. The caller is what \<^verbatim>\<open>get_optional_user\<close> resolved
  (None for an anonymous caller); \<open>now\<close> is the clock at the commit.
\<close>

definition get_chart ::
  "db \<Rightarrow> timestamp \<Rightarrow> string \<Rightarrow> User option \<Rightarrow> HTTPException + (db \<times> ChartResponse)" where
  "get_chart d now chart_id current_user =
     (case first (\<lambda>c. Chart_id c = chart_id) (charts d) of
        None \<Rightarrow> Inl (HTTPException 404 ''Chart not found'')
      | Some chart \<Rightarrow>
          if Chart_is_public chart = 0 \<and>
             (case current_user of None \<Rightarrow> True
              | Some u \<Rightarrow> Chart_user_id chart \<noteq> User_id u)
          then Inl (HTTPException 403 ''Access denied'')
          else
            let chart' = chart\<lparr>Chart_view_count := Chart_view_count chart + 1,
                               Chart_updated_at := now\<rparr>;
                d' = d\<lparr>charts := write_back (\<lambda>c. Chart_id c = chart_id) chart' (charts d)\<rparr>
            in Inr (d', chart_to_response chart' current_user d'))"

section \<open>Save and like endpoints (main.py)\<close>

record SavedChartResponse =
  SavedChartResponse_id :: string
  SavedChartResponse_chart_id :: string
  SavedChartResponse_created_at :: timestamp
  SavedChartResponse_chart :: ChartResponse

record LikeResponse =
  LikeResponse_id :: string
  LikeResponse_chart_id :: string
  LikeResponse_created_at :: timestamp

text \<open>
  The endpoints below run after \<^verbatim>\<open>get_current_user\<close> has resolved the caller. A new row
  gets the identifier \<open>new_id\<close> drawn by \<^verbatim>\<open>generate_uuid\<close> and the time \<open>now\<close> of the
  insert; \<^verbatim>\<open>db.delete(row)\<close> removes the row that the query loaded.
\<close>

definition save_chart ::
  "db \<Rightarrow> timestamp \<Rightarrow> string \<Rightarrow> string \<Rightarrow> User \<Rightarrow> HTTPException + (db \<times> SavedChartResponse)" where
  "save_chart d now new_id chart_id current_user =
     (case first (\<lambda>c. Chart_id c = chart_id) (charts d) of
        None \<Rightarrow> Inl (HTTPException 404 ''Chart not found'')
      | Some chart \<Rightarrow>
          (case first (\<lambda>s. SavedChart_user_id s = User_id current_user \<and>
                            SavedChart_chart_id s = chart_id) (saved_charts d) of
             Some existing \<Rightarrow> Inl (HTTPException 400 ''Chart already saved'')
           | None \<Rightarrow>
               let saved = \<lparr>SavedChart_id = new_id,
                            SavedChart_user_id = User_id current_user,
                            SavedChart_chart_id = chart_id,
                            SavedChart_created_at = now\<rparr>;
                   d' = d\<lparr>saved_charts := saved_charts d @ [saved]\<rparr>
               in Inr (d', \<lparr>SavedChartResponse_id = SavedChart_id saved,
                            SavedChartResponse_chart_id = SavedChart_chart_id saved,
                            SavedChartResponse_created_at = SavedChart_created_at saved,
                            SavedChartResponse_chart =
                              chart_to_response chart (Some current_user) d'\<rparr>)))"

definition unsave_chart :: "db \<Rightarrow> string \<Rightarrow> User \<Rightarrow> HTTPException + db" where
  "unsave_chart d chart_id current_user =
     (case first (\<lambda>s. SavedChart_user_id s = User_id current_user \<and>
                       SavedChart_chart_id s = chart_id) (saved_charts d) of
        None \<Rightarrow> Inl (HTTPException 404 ''Saved chart not found'')
      | Some saved \<Rightarrow> Inr (d\<lparr>saved_charts := remove1 saved (saved_charts d)\<rparr>))"

definition like_chart ::
  "db \<Rightarrow> timestamp \<Rightarrow> string \<Rightarrow> string \<Rightarrow> User \<Rightarrow> HTTPException + (db \<times> LikeResponse)" where
  "like_chart d now new_id chart_id current_user =
     (case first (\<lambda>c. Chart_id c = chart_id) (charts d) of
        None \<Rightarrow> Inl (HTTPException 404 ''Chart not found'')
      | Some chart \<Rightarrow>
          (case first (\<lambda>l. Like_user_id l = User_id current_user \<and>
                            Like_chart_id l = chart_id) (likes d) of
             Some existing \<Rightarrow> Inl (HTTPException 400 ''Chart already liked'')
           | None \<Rightarrow>
               let like = \<lparr>Like_id = new_id,
                           Like_user_id = User_id current_user,
                           Like_chart_id = chart_id,
                           Like_created_at = now\<rparr>;
                   chart' = chart\<lparr>Chart_like_count := Chart_like_count chart + 1,
                                  Chart_updated_at := now\<rparr>;
                   d' = d\<lparr>likes := likes d @ [like],
                          charts := write_back (\<lambda>c. Chart_id c = chart_id) chart' (charts d)\<rparr>
               in Inr (d', \<lparr>LikeResponse_id = Like_id like,
                            LikeResponse_chart_id = Like_chart_id like,
                            LikeResponse_created_at = Like_created_at like\<rparr>)))"

definition unlike_chart :: "db \<Rightarrow> timestamp \<Rightarrow> string \<Rightarrow> User \<Rightarrow> HTTPException + db" where
  "unlike_chart d now chart_id current_user =
     (case first (\<lambda>l. Like_user_id l = User_id current_user \<and>
                       Like_chart_id l = chart_id) (likes d) of
        None \<Rightarrow> Inl (HTTPException 404 ''Like not found'')
      | Some like \<Rightarrow>
          let chart = first (\<lambda>c. Chart_id c = chart_id) (charts d);
              charts' = (case chart of
                           None \<Rightarrow> charts d
                         | Some c \<Rightarrow>
                             if Chart_like_count c > 0
                             then write_back (\<lambda>c. Chart_id c = chart_id)
                                    (c\<lparr>Chart_like_count := Chart_like_count c - 1,
                                       Chart_updated_at := now\<rparr>) (charts d)
                             else charts d)
          in Inr (d\<lparr>charts := charts', likes := remove1 like (likes d)\<rparr>))"

section \<open>Token service (dependencies.py)\<close>

text \<open>Every \<^verbatim>\<open>logger.warning(msg)\<close> is a record appended to the log the function returns.\<close>

datatype log_record = Warning string

text \<open>
  The payload of a token: the three claims this service writes and reads. A claim that
  is absent from the payload dictionary is None.
\<close>

record claims =
  sub :: "string option"
  exp :: "timestamp option"
  iat :: "timestamp option"

text \<open>
  Modelled from the spec: the token strings that the PyJWT package, which is not part of
  the sources, writes and reads. A token string is kept in parsed form: either the
  compact serialisation of a payload together with its HS256 authentication tag, or any
  other string, which has no such reading. The tag is symbolic: \<open>HS256 k c\<close> is the tag of payload \<open>c\<close> under key \<open>k\<close>, so
  a tag verifies under a key exactly when it was computed with that key over that payload.
\<close>

datatype tag = HS256 string claims

datatype token = JWS claims tag | Undecodable string

text \<open>
  \<^verbatim>\<open>jwt.ExpiredSignatureError\<close> is a subclass of \<^verbatim>\<open>jwt.InvalidTokenError\<close>; the other
  invalid-token errors carry their message.
\<close>

datatype jwt_error = ExpiredSignatureError | InvalidTokenError string

text \<open>
  Modelled from the spec: \<^verbatim>\<open>jwt.encode\<close> of the PyJWT package, which is not part of the
  sources. Section 4.1 says that \<open>issue\<close> produces a signed credential and that
  \<open>validate\<close> verifies signature and expiry, signalling \<open>Expired\<close> or \<open>Malformed\<close>;
  section 8 says that a token signed with a different secret or with a corrupted payload
  is \<open>Malformed\<close>. Encoding attaches the tag of the payload under the key.
\<close>

definition jwt_encode :: "claims \<Rightarrow> string \<Rightarrow> token" where
  "jwt_encode payload key = JWS payload (HS256 key payload)"

text \<open>
  Modelled from the spec: \<^verbatim>\<open>jwt.decode\<close> of the PyJWT package, which is not part of the
  sources. A string that is no token and a tag that does not verify raise an
  \<^verbatim>\<open>InvalidTokenError\<close> (\<open>Malformed\<close>); a verified token whose expiry claim is not after
  \<open>now\<close> raises \<^verbatim>\<open>ExpiredSignatureError\<close> (\<open>Expired\<close>); otherwise the payload is returned.
\<close>

fun jwt_decode :: "timestamp \<Rightarrow> token \<Rightarrow> string \<Rightarrow> jwt_error + claims" where
  "jwt_decode now (Undecodable s) key = Inl (InvalidTokenError ''Not enough segments'')"
| "jwt_decode now (JWS payload t) key =
     (if t \<noteq> HS256 key payload then Inl (InvalidTokenError ''Signature verification failed'')
      else case exp payload of
             None \<Rightarrow> Inr payload
           | Some e \<Rightarrow> if e \<le> now then Inl ExpiredSignatureError else Inr payload)"

definition JWT_EXPIRATION_DAYS :: int where
  "JWT_EXPIRATION_DAYS = 7"

text \<open>\<^verbatim>\<open>timedelta(days=n)\<close> in seconds.\<close>

definition timedelta_days :: "int \<Rightarrow> int" where
  "timedelta_days n = n * 86400"

text \<open>
  \<^verbatim>\<open>create_access_token\<close> reads the clock twice: \<open>now_exp\<close> for the expiry claim and
  \<open>now_iat\<close> for the issued-at claim. \<open>secret\<close> is the module's \<^verbatim>\<open>JWT_SECRET_KEY\<close>.
\<close>

definition create_access_token :: "string \<Rightarrow> timestamp \<Rightarrow> timestamp \<Rightarrow> string \<Rightarrow> token" where
  "create_access_token secret now_exp now_iat user_id =
     jwt_encode \<lparr>sub = Some user_id,
                 exp = Some (now_exp + timedelta_days JWT_EXPIRATION_DAYS),
                 iat = Some now_iat\<rparr> secret"

definition decode_token :: "string \<Rightarrow> timestamp \<Rightarrow> token \<Rightarrow> claims option \<times> log_record list" where
  "decode_token secret now tok =
     (case jwt_decode now tok secret of
        Inr payload \<Rightarrow> (Some payload, [])
      | Inl ExpiredSignatureError \<Rightarrow> (None, [Warning ''Token expired''])
      | Inl (InvalidTokenError e) \<Rightarrow> (None, [Warning (''Invalid token: '' @ e)]))"

section \<open>Identity resolver (dependencies.py)\<close>

text \<open>What \<^verbatim>\<open>HTTPBearer(auto_error=False)\<close> hands over for a bearer header.\<close>

record HTTPAuthorizationCredentials =
  scheme :: string
  credentials :: token

text \<open>Python truthiness of a token string and of a payload dictionary.\<close>

definition truthy_token :: "token \<Rightarrow> bool" where
  "truthy_token tok = (tok \<noteq> Undecodable [])"

definition truthy_payload :: "claims \<Rightarrow> bool" where
  "truthy_payload p = (sub p \<noteq> None \<or> exp p \<noteq> None \<or> iat p \<noteq> None)"

definition get_current_user ::
  "db \<Rightarrow> string \<Rightarrow> timestamp \<Rightarrow> HTTPAuthorizationCredentials option \<Rightarrow> token option
     \<Rightarrow> (HTTPException + User) \<times> log_record list" where
  "get_current_user d secret now creds auth_token =
     (let tok = (case auth_token of
                   Some t \<Rightarrow> if truthy_token t then Some t
                             else map_option credentials creds
                 | None \<Rightarrow> map_option credentials creds)
      in case tok of
           None \<Rightarrow> (Inl (HTTPException 401 ''Not authenticated''), [])
         | Some t \<Rightarrow>
             if \<not> truthy_token t then (Inl (HTTPException 401 ''Not authenticated''), [])
             else
               (case decode_token secret now t of
                  (None, lg) \<Rightarrow> (Inl (HTTPException 401 ''Invalid or expired token''), lg)
                | (Some payload, lg) \<Rightarrow>
                    if \<not> truthy_payload payload
                    then (Inl (HTTPException 401 ''Invalid or expired token''), lg)
                    else
                      (case sub payload of
                         None \<Rightarrow> (Inl (HTTPException 401 ''Invalid token payload''), lg)
                       | Some user_id \<Rightarrow>
                           if user_id = [] then (Inl (HTTPException 401 ''Invalid token payload''), lg)
                           else
                             (case first (\<lambda>u. User_id u = user_id) (users d) of
                                None \<Rightarrow> (Inl (HTTPException 401 ''User not found''), lg)
                              | Some user \<Rightarrow> (Inr user, lg)))))"

definition get_optional_user ::
  "db \<Rightarrow> string \<Rightarrow> timestamp \<Rightarrow> HTTPAuthorizationCredentials option \<Rightarrow> token option
     \<Rightarrow> User option \<times> log_record list" where
  "get_optional_user d secret now creds auth_token =
     (case get_current_user d secret now creds auth_token of
        (Inr user, lg) \<Rightarrow> (Some user, lg)
      | (Inl e, lg) \<Rightarrow> (None, lg))"

section \<open>Redirect targets (main.py)\<close>

text \<open>
  The module's configuration, read from the environment at import:
  \<^verbatim>\<open>ALLOWED_FRONTEND_DOMAINS\<close> is the list that \<^verbatim>\<open>split(",")\<close> returned.
\<close>

record config =
  FRONTEND_URL :: string
  ALLOWED_FRONTEND_DOMAINS :: "string list"
  IS_PRODUCTION :: bool

text \<open>
  A string is a sequence of code points below 256. \<^verbatim>\<open>str.isspace\<close> holds there for
  U+0009 to U+000D, U+001C to U+0020, U+0085 and U+00A0; \<^verbatim>\<open>str.strip()\<close> removes such
  characters from both ends.
\<close>

definition isspace :: "char \<Rightarrow> bool" where
  "isspace c = (of_char c \<in> {9, 10, 11, 12, 13, 28, 29, 30, 31, 32, 133, (160::nat)})"

definition strip :: "string \<Rightarrow> string" where
  "strip s = rev (dropWhile isspace (rev (dropWhile isspace s)))"

definition startswith :: "string \<Rightarrow> string \<Rightarrow> bool" where
  "startswith s p = prefix p s"

definition allowed :: "config \<Rightarrow> string list" where
  "allowed cfg =
     [FRONTEND_URL cfg] @
     map strip (filter (\<lambda>d. strip d \<noteq> []) (ALLOWED_FRONTEND_DOMAINS cfg))"

definition safe_frontend_target :: "config \<Rightarrow> string option \<Rightarrow> string \<times> log_record list" where
  "safe_frontend_target cfg target =
     (case target of
        None \<Rightarrow> (FRONTEND_URL cfg, [])
      | Some t \<Rightarrow>
          if t = [] then (FRONTEND_URL cfg, [])
          else if \<not> IS_PRODUCTION cfg \<and>
                  (startswith t ''http://localhost:'' \<or> startswith t ''http://127.0.0.1:'')
          then (t, [])
          else
            (case find (\<lambda>domain. startswith t domain) (allowed cfg) of
               Some domain \<Rightarrow> (t, [])
             | None \<Rightarrow> (FRONTEND_URL cfg,
                         [Warning (''Blocked redirect to untrusted domain: '' @ t)])))"

section \<open>Vocabulary of the properties\<close>

definition lookup_chart :: "db \<Rightarrow> string \<Rightarrow> Chart option" where
  "lookup_chart d chart_id = first (\<lambda>c. Chart_id c = chart_id) (charts d)"

definition has_saved :: "db \<Rightarrow> User \<Rightarrow> string \<Rightarrow> bool" where
  "has_saved d u chart_id =
     list_ex (\<lambda>s. SavedChart_user_id s = User_id u \<and> SavedChart_chart_id s = chart_id)
       (saved_charts d)"

definition has_liked :: "db \<Rightarrow> User \<Rightarrow> string \<Rightarrow> bool" where
  "has_liked d u chart_id =
     list_ex (\<lambda>l. Like_user_id l = User_id u \<and> Like_chart_id l = chart_id) (likes d)"

text \<open>The join rows that \<^verbatim>\<open>save_chart\<close> and \<^verbatim>\<open>like_chart\<close> construct.\<close>

definition new_saved :: "timestamp \<Rightarrow> string \<Rightarrow> string \<Rightarrow> User \<Rightarrow> SavedChart" where
  "new_saved now new_id chart_id u =
     \<lparr>SavedChart_id = new_id, SavedChart_user_id = User_id u,
      SavedChart_chart_id = chart_id, SavedChart_created_at = now\<rparr>"

definition new_like :: "timestamp \<Rightarrow> string \<Rightarrow> string \<Rightarrow> User \<Rightarrow> Like" where
  "new_like now new_id chart_id u =
     \<lparr>Like_id = new_id, Like_user_id = User_id u,
      Like_chart_id = chart_id, Like_created_at = now\<rparr>"

text \<open>
  A run of like and unlike requests against the store. A request that fails with an
  HTTP error commits nothing, so the store stays as it was.
\<close>

datatype request =
  LikeRequest timestamp string string User
| UnlikeRequest timestamp string User

fun handle :: "db \<Rightarrow> request \<Rightarrow> db" where
  "handle d (LikeRequest now new_id chart_id u) =
     (case like_chart d now new_id chart_id u of Inr (d', r) \<Rightarrow> d' | Inl e \<Rightarrow> d)"
| "handle d (UnlikeRequest now chart_id u) =
     (case unlike_chart d now chart_id u of Inr d' \<Rightarrow> d' | Inl e \<Rightarrow> d)"

text \<open>The number of Like rows that reference a chart, and the invariant of section 3.\<close>

definition like_rows :: "db \<Rightarrow> string \<Rightarrow> nat" where
  "like_rows d chart_id = length (filter (\<lambda>l. Like_chart_id l = chart_id) (likes d))"

definition like_count_consistent :: "db \<Rightarrow> bool" where
  "like_count_consistent d =
     list_all (\<lambda>c. Chart_like_count c = int (like_rows d (Chart_id c))) (charts d)"

text \<open>\<^verbatim>\<open>Chart.id\<close> is the primary key of the charts table.\<close>

definition chart_ids_distinct :: "db \<Rightarrow> bool" where
  "chart_ids_distinct d = distinct (map Chart_id (charts d))"

text \<open>The two tests of \<^verbatim>\<open>_safe_frontend_target\<close>, named.\<close>

definition localhost_style :: "string \<Rightarrow> bool" where
  "localhost_style t = (startswith t ''http://localhost:'' \<or> startswith t ''http://127.0.0.1:'')"

definition begins_with_allowed :: "config \<Rightarrow> string \<Rightarrow> bool" where
  "begins_with_allowed cfg t = list_ex (\<lambda>domain. startswith t domain) (allowed cfg)"

text \<open>
  A target matches an origin when it is that origin or continues it with a path, a query
  or a fragment: the origin is not empty, the target begins with it, and what follows, if
  anything, begins with \<open>/\<close>, \<open>?\<close> or \<open>#\<close>. A target on another host whose name merely
  begins with the origin does not match it.
\<close>

definition matches_origin :: "string \<Rightarrow> string \<Rightarrow> bool" where
  "matches_origin t origin =
     (origin \<noteq> [] \<and> prefix origin t \<and>
      (case drop (length origin) t of
         [] \<Rightarrow> True
       | c # rest \<Rightarrow> c = CHR ''/'' \<or> c = CHR ''?'' \<or> c = CHR ''#''))"

definition matches_allowed :: "config \<Rightarrow> string \<Rightarrow> bool" where
  "matches_allowed cfg t = list_ex (\<lambda>origin. matches_origin t origin) (allowed cfg)"

subsection \<open>Sample data\<close>

definition alice :: User where
  "alice = \<lparr>User_id = ''ua'', User_email = ''alice@example.org'', User_name = None,
     User_picture = None, User_google_id = ''ga'', User_created_at = 0,
     User_last_login = None\<rparr>"

definition bob :: User where
  "bob = \<lparr>User_id = ''ub'', User_email = ''bob@example.org'', User_name = None,
     User_picture = None, User_google_id = ''gb'', User_created_at = 0,
     User_last_login = None\<rparr>"

text \<open>A private chart and a public chart, both owned by \<open>alice\<close>.\<close>

definition chart1 :: Chart where
  "chart1 = \<lparr>Chart_id = ''c1'', Chart_user_id = ''ua'', Chart_title = None,
     Chart_description = None, Chart_data = ''{}'', Chart_config = ''{}'',
     Chart_source_type = None, Chart_source_url = None, Chart_is_public = 0,
     Chart_view_count = 0, Chart_like_count = 0, Chart_created_at = 0,
     Chart_updated_at = 0\<rparr>"

definition chart2 :: Chart where
  "chart2 = \<lparr>Chart_id = ''c2'', Chart_user_id = ''ua'', Chart_title = None,
     Chart_description = None, Chart_data = ''{}'', Chart_config = ''{}'',
     Chart_source_type = None, Chart_source_url = None, Chart_is_public = 1,
     Chart_view_count = 0, Chart_like_count = 0, Chart_created_at = 0,
     Chart_updated_at = 0\<rparr>"

definition db1 :: db where
  "db1 = \<lparr>users = [alice, bob], charts = [chart1, chart2], saved_charts = [], likes = []\<rparr>"

text \<open>The store after \<open>bob\<close> has saved \<open>chart1\<close>, and after \<open>bob\<close> has liked it.\<close>

definition db_saved :: db where
  "db_saved = db1\<lparr>saved_charts := [new_saved 5 ''s1'' ''c1'' bob]\<rparr>"

definition chart1_liked :: Chart where
  "chart1_liked = chart1\<lparr>Chart_like_count := 1, Chart_updated_at := 5\<rparr>"

definition db_liked :: db where
  "db_liked = db1\<lparr>likes := [new_like 5 ''l1'' ''c1'' bob], charts := [chart1_liked, chart2]\<rparr>"

text \<open>Tokens issued at time 0 under the secret \<open>k\<close>, and a bearer header carrying one.\<close>

definition token_alice :: token where
  "token_alice = create_access_token ''k'' 0 0 ''ua''"

definition token_bob :: token where
  "token_bob = create_access_token ''k'' 0 0 ''ub''"

definition bearer_alice :: HTTPAuthorizationCredentials where
  "bearer_alice = \<lparr>scheme = ''Bearer'', credentials = token_alice\<rparr>"

definition claims_bob :: claims where
  "claims_bob = \<lparr>sub = Some ''ub'', exp = Some 604800, iat = Some 0\<rparr>"

text \<open>
  A development configuration whose allowed entries are padded with white space (a
  no-break space and a next-line character among it), the same in production mode, and a production process
  whose \<^verbatim>\<open>FRONTEND_URL\<close> and \<^verbatim>\<open>ALLOWED_FRONTEND_DOMAINS\<close> are unset, so that both
  have their defaults.
\<close>

definition cfg_dev :: config where
  "cfg_dev = \<lparr>FRONTEND_URL = ''https://charts.example'',
     ALLOWED_FRONTEND_DOMAINS = [CHR 0xA0 # '' https://app.example '' @ [CHR 0x85], '' ''],
     IS_PRODUCTION = False\<rparr>"

definition cfg_live :: config where
  "cfg_live = cfg_dev\<lparr>IS_PRODUCTION := True\<rparr>"

definition cfg_unset :: config where
  "cfg_unset = \<lparr>FRONTEND_URL = ''http://localhost:5173'', ALLOWED_FRONTEND_DOMAINS = [''''],
     IS_PRODUCTION = True\<rparr>"

lemmas sample_defs = alice_def bob_def chart1_def chart2_def db1_def db_saved_def
  chart1_liked_def db_liked_def new_saved_def new_like_def

section \<open>Queries and write-back\<close>

lemma first_None_iff: "first P xs = None \<longleftrightarrow> \<not> list_ex P xs"
  by (auto simp: first_def find_None_iff list_ex_iff)

lemma first_Some_holds: "first P xs = Some x \<Longrightarrow> P x \<and> x \<in> set xs"
  by (auto simp: first_def find_Some_iff)

lemma first_append_new: "first P xs = None \<Longrightarrow> P y \<Longrightarrow> first P (xs @ [y]) = Some y"
  by (induction xs) (auto simp: first_def split: if_splits)

lemma remove1_append_new: "y \<notin> set xs \<Longrightarrow> remove1 y (xs @ [y]) = xs"
  by (induction xs) auto

lemma first_write_back:
  "first P xs = Some x \<Longrightarrow> P y \<Longrightarrow> first P (write_back P y xs) = Some y"
  by (induction xs) (auto simp: first_def)

lemma write_back_others:
  "P y \<Longrightarrow> filter (\<lambda>x. \<not> P x) (write_back P y xs) = filter (\<lambda>x. \<not> P x) xs"
  by (induction xs) auto

lemma length_write_back: "length (write_back P y xs) = length xs"
  by (induction xs) auto

section \<open>Reading a chart\<close>

text \<open>
  C1. \<^verbatim>\<open>GET /api/charts/{id}\<close>: when no chart has the id the result is 404 (NotFound),
  whoever the caller is, so existence is decided before visibility; when the chart exists,
  is private (\<open>is_public = 0\<close>) and the caller is anonymous or is not its owner, the result
  is 403 (Forbidden); when the chart exists and is public, the read succeeds for every
  caller.
\<close>

theorem get_chart_access:
  "(lookup_chart d chart_id = None \<longrightarrow>
      get_chart d now chart_id caller = Inl (HTTPException 404 ''Chart not found'')) \<and>
   (lookup_chart d chart_id = Some chart \<and> Chart_is_public chart = 0 \<and>
    (\<forall>u. caller = Some u \<longrightarrow> User_id u \<noteq> Chart_user_id chart) \<longrightarrow>
      get_chart d now chart_id caller = Inl (HTTPException 403 ''Access denied'')) \<and>
   (lookup_chart d chart_id = Some chart \<and> Chart_is_public chart \<noteq> 0 \<longrightarrow>
      (\<exists>d' r. get_chart d now chart_id caller = Inr (d', r)))"
  by (auto simp: get_chart_def lookup_chart_def Let_def split: option.splits)

theorem get_chart_access_witness:
  "lookup_chart db1 ''c9'' = None \<and>
   get_chart db1 5 ''c9'' (Some bob) = Inl (HTTPException 404 ''Chart not found'') \<and>
   lookup_chart db1 ''c1'' = Some chart1 \<and> Chart_is_public chart1 = 0 \<and>
   User_id bob \<noteq> Chart_user_id chart1 \<and>
   get_chart db1 5 ''c1'' (Some bob) = Inl (HTTPException 403 ''Access denied'') \<and>
   get_chart db1 5 ''c1'' None = Inl (HTTPException 403 ''Access denied'') \<and>
   lookup_chart db1 ''c2'' = Some chart2 \<and> Chart_is_public chart2 \<noteq> 0 \<and>
   \<not> isl (get_chart db1 5 ''c2'' None)"
proof -
  have h1: "lookup_chart db1 ''c9'' = None"
    by (simp add: lookup_chart_def first_def sample_defs)
  have h2: "lookup_chart db1 ''c1'' = Some chart1"
    by (simp add: lookup_chart_def first_def sample_defs)
  have h3: "Chart_is_public chart1 = 0" "User_id bob \<noteq> Chart_user_id chart1"
    by (simp_all add: sample_defs)
  have h4: "lookup_chart db1 ''c2'' = Some chart2"
    by (simp add: lookup_chart_def first_def sample_defs)
  have h5: "Chart_is_public chart2 \<noteq> 0"
    by (simp add: sample_defs)
  have a: "get_chart db1 5 ''c9'' (Some bob) = Inl (HTTPException 404 ''Chart not found'')"
    using get_chart_access [where d = db1 and chart_id = "''c9''" and now = 5
        and caller = "Some bob"] h1 by simp
  have b: "get_chart db1 5 ''c1'' (Some bob) = Inl (HTTPException 403 ''Access denied'')"
    using get_chart_access [where d = db1 and chart_id = "''c1''" and now = 5
        and caller = "Some bob" and chart = chart1] h2 h3 by simp
  have c: "get_chart db1 5 ''c1'' None = Inl (HTTPException 403 ''Access denied'')"
    using get_chart_access [where d = db1 and chart_id = "''c1''" and now = 5
        and caller = None and chart = chart1] h2 h3 by simp
  have e: "\<not> isl (get_chart db1 5 ''c2'' None)"
    using get_chart_access [where d = db1 and chart_id = "''c2''" and now = 5
        and caller = None and chart = chart2] h4 h5 by auto
  show ?thesis using h1 h2 h3 h4 h5 a b c e by simp
qed

text \<open>
  C8, as the code has it. Every successful read, by any caller (the owner included),
  writes the chart back with \<open>view_count\<close> one higher and, because of the column's
  \<^verbatim>\<open>onupdate\<close> hook, with \<open>updated_at\<close> set to the time of the commit; every other field
  of the chart is as before, the response carries the new counter, and the rows of the
  other charts and of the other tables are as before.
\<close>

theorem get_chart_view_count:
  assumes "get_chart d now chart_id caller = Inr (d', r)"
  shows "\<exists>chart. lookup_chart d chart_id = Some chart \<and>
           lookup_chart d' chart_id =
             Some (chart\<lparr>Chart_view_count := Chart_view_count chart + 1,
                         Chart_updated_at := now\<rparr>) \<and>
           ChartResponse_view_count r = Chart_view_count chart + 1 \<and>
           filter (\<lambda>c. Chart_id c \<noteq> chart_id) (charts d') =
             filter (\<lambda>c. Chart_id c \<noteq> chart_id) (charts d) \<and>
           length (charts d') = length (charts d) \<and>
           users d' = users d \<and> saved_charts d' = saved_charts d \<and> likes d' = likes d"
proof -
  from assms obtain chart where c: "first (\<lambda>c. Chart_id c = chart_id) (charts d) = Some chart"
    by (cases "first (\<lambda>c. Chart_id c = chart_id) (charts d)") (simp_all add: get_chart_def)
  let ?c' = "chart\<lparr>Chart_view_count := Chart_view_count chart + 1, Chart_updated_at := now\<rparr>"
  let ?d' = "d\<lparr>charts := write_back (\<lambda>c. Chart_id c = chart_id) ?c' (charts d)\<rparr>"
  have id: "Chart_id ?c' = chart_id" using first_Some_holds [OF c] by simp
  from assms c have d': "d' = ?d'" and r: "r = chart_to_response ?c' caller ?d'"
    by (auto simp: get_chart_def Let_def split: if_splits)
  have 1: "lookup_chart d' chart_id = Some ?c'"
    unfolding lookup_chart_def d' using first_write_back [OF c, of ?c'] id by simp
  have 2: "filter (\<lambda>c. Chart_id c \<noteq> chart_id) (charts d') =
             filter (\<lambda>c. Chart_id c \<noteq> chart_id) (charts d)"
    unfolding d' using write_back_others [of "\<lambda>c. Chart_id c = chart_id" ?c' "charts d"] id
    by simp
  have 3: "ChartResponse_view_count r = Chart_view_count chart + 1"
    unfolding r by (simp add: chart_to_response_def Let_def)
  have 4: "length (charts d') = length (charts d)"
    unfolding d' by (simp add: length_write_back)
  have 5: "users d' = users d \<and> saved_charts d' = saved_charts d \<and> likes d' = likes d"
    unfolding d' by simp
  have 0: "lookup_chart d chart_id = Some chart"
    using c by (simp add: lookup_chart_def)
  show ?thesis using 0 1 2 3 4 5 by blast
qed

text \<open>The state and the response of \<open>alice\<close> reading her own private chart at time 5.\<close>

lemma get_chart_own_private:
  "get_chart db1 5 ''c1'' (Some alice) =
     Inr (db1\<lparr>charts := [chart1\<lparr>Chart_view_count := 1, Chart_updated_at := 5\<rparr>, chart2]\<rparr>,
          chart_to_response (chart1\<lparr>Chart_view_count := 1, Chart_updated_at := 5\<rparr>)
            (Some alice)
            (db1\<lparr>charts := [chart1\<lparr>Chart_view_count := 1, Chart_updated_at := 5\<rparr>, chart2]\<rparr>))"
  by (simp add: get_chart_def first_def Let_def sample_defs)

theorem get_chart_view_count_witness:
  "lookup_chart db1 ''c1'' = Some chart1 \<and>
   lookup_chart (db1\<lparr>charts := [chart1\<lparr>Chart_view_count := 1, Chart_updated_at := 5\<rparr>, chart2]\<rparr>)
     ''c1'' = Some (chart1\<lparr>Chart_view_count := 1, Chart_updated_at := 5\<rparr>)"
proof -
  have s: "lookup_chart db1 ''c1'' = Some chart1"
    by (simp add: lookup_chart_def first_def sample_defs)
  have v: "Chart_view_count chart1 + 1 = 1"
    by (simp add: sample_defs)
  from get_chart_view_count [OF get_chart_own_private] s v show ?thesis
    by simp
qed

text \<open>
  C8 as stated fails: the read changes a second field of the chart. \<open>alice\<close> reads
  \<open>chart1\<close>, last updated at time 0, at time 5; the stored chart then has
  \<open>updated_at = 5\<close>, so it is not the old chart with only \<open>view_count\<close> incremented.
\<close>

theorem get_chart_frame_counterexample:
  "\<not> isl (get_chart db1 5 ''c1'' (Some alice)) \<and>
   lookup_chart db1 ''c1'' = Some chart1 \<and>
   lookup_chart (fst (projr (get_chart db1 5 ''c1'' (Some alice)))) ''c1'' \<noteq>
     Some (chart1\<lparr>Chart_view_count := Chart_view_count chart1 + 1\<rparr>) \<and>
   Chart_updated_at chart1 = 0 \<and>
   map_option Chart_updated_at
     (lookup_chart (fst (projr (get_chart db1 5 ''c1'' (Some alice)))) ''c1'') = Some 5"
  by (simp add: get_chart_own_private) (simp add: lookup_chart_def first_def sample_defs)

section \<open>Saving and liking\<close>

lemma has_saved_first:
  "has_saved d u chart_id \<longleftrightarrow>
     first (\<lambda>s. SavedChart_user_id s = User_id u \<and> SavedChart_chart_id s = chart_id)
       (saved_charts d) \<noteq> None"
  by (simp add: has_saved_def first_None_iff)

lemma has_liked_first:
  "has_liked d u chart_id \<longleftrightarrow>
     first (\<lambda>l. Like_user_id l = User_id u \<and> Like_chart_id l = chart_id) (likes d) \<noteq> None"
  by (simp add: has_liked_def first_None_iff)

lemma save_chart_conflict:
  "lookup_chart d chart_id = Some chart \<Longrightarrow> has_saved d u chart_id \<Longrightarrow>
   save_chart d now new_id chart_id u = Inl (HTTPException 400 ''Chart already saved'')"
  by (auto simp: save_chart_def lookup_chart_def has_saved_first split: option.splits)

lemma like_chart_conflict:
  "lookup_chart d chart_id = Some chart \<Longrightarrow> has_liked d u chart_id \<Longrightarrow>
   like_chart d now new_id chart_id u = Inl (HTTPException 400 ''Chart already liked'')"
  by (auto simp: like_chart_def lookup_chart_def has_liked_first split: option.splits)

lemma save_chart_fresh:
  "lookup_chart d chart_id = Some chart \<Longrightarrow> \<not> has_saved d u chart_id \<Longrightarrow>
   \<exists>r. save_chart d now new_id chart_id u =
         Inr (d\<lparr>saved_charts := saved_charts d @ [new_saved now new_id chart_id u]\<rparr>, r)"
  by (auto simp: save_chart_def lookup_chart_def has_saved_first new_saved_def Let_def
      split: option.splits)

lemma like_chart_fresh:
  "lookup_chart d chart_id = Some chart \<Longrightarrow> \<not> has_liked d u chart_id \<Longrightarrow>
   \<exists>r. like_chart d now new_id chart_id u =
         Inr (d\<lparr>likes := likes d @ [new_like now new_id chart_id u],
                charts := write_back (\<lambda>c. Chart_id c = chart_id)
                  (chart\<lparr>Chart_like_count := Chart_like_count chart + 1,
                         Chart_updated_at := now\<rparr>) (charts d)\<rparr>, r)"
  by (auto simp: like_chart_def lookup_chart_def has_liked_first new_like_def Let_def
      split: option.splits)

lemma has_saved_append:
  "has_saved (d\<lparr>saved_charts := saved_charts d @ [new_saved now new_id chart_id u]\<rparr>) u chart_id"
  by (simp add: has_saved_def new_saved_def)

lemma has_liked_append:
  "has_liked (d\<lparr>likes := likes d @ [new_like now new_id chart_id u], charts := cs\<rparr>) u chart_id"
  by (simp add: has_liked_def new_like_def)

lemma unsave_after_save:
  assumes "\<not> has_saved d u chart_id"
  shows "unsave_chart (d\<lparr>saved_charts := saved_charts d @ [new_saved now new_id chart_id u]\<rparr>)
           chart_id u = Inr d"
proof -
  let ?P = "\<lambda>s. SavedChart_user_id s = User_id u \<and> SavedChart_chart_id s = chart_id"
  let ?s = "new_saved now new_id chart_id u"
  have none: "first ?P (saved_charts d) = None"
    using assms by (simp add: has_saved_first)
  have P: "?P ?s" by (simp add: new_saved_def)
  have f: "first ?P (saved_charts d @ [?s]) = Some ?s"
    using first_append_new [OF none, of ?s] P by simp
  have "?s \<notin> set (saved_charts d)"
    using none P by (auto simp: first_None_iff list_ex_iff)
  then have "remove1 ?s (saved_charts d @ [?s]) = saved_charts d"
    by (rule remove1_append_new)
  then show ?thesis using f by (simp add: unsave_chart_def)
qed

lemma lookup_after_like:
  "lookup_chart d chart_id = Some chart \<Longrightarrow>
   lookup_chart (d\<lparr>likes := ls, charts := write_back (\<lambda>c. Chart_id c = chart_id)
       (chart\<lparr>Chart_like_count := n, Chart_updated_at := t\<rparr>) (charts d)\<rparr>) chart_id =
     Some (chart\<lparr>Chart_like_count := n, Chart_updated_at := t\<rparr>)"
  unfolding lookup_chart_def
  using first_write_back [of "\<lambda>c. Chart_id c = chart_id" "charts d" chart
      "chart\<lparr>Chart_like_count := n, Chart_updated_at := t\<rparr>"]
    first_Some_holds [of "\<lambda>c. Chart_id c = chart_id" "charts d" chart]
  by simp

subsection \<open>Sample requests\<close>

lemma lookup_db1: "lookup_chart db1 ''c1'' = Some chart1"
  by (simp add: lookup_chart_def first_def sample_defs)

lemma lookup_db_saved: "lookup_chart db_saved ''c1'' = Some chart1"
  by (simp add: lookup_chart_def first_def sample_defs)

lemma lookup_db_liked: "lookup_chart db_liked ''c1'' = Some chart1_liked"
  by (simp add: lookup_chart_def first_def sample_defs)

lemma db1_fresh: "\<not> has_saved db1 bob ''c1''" "\<not> has_liked db1 bob ''c1''"
  by (simp_all add: has_saved_def has_liked_def sample_defs)

lemma like_chart_db1:
  "like_chart db1 5 ''l1'' ''c1'' bob =
     Inr (db_liked, \<lparr>LikeResponse_id = ''l1'', LikeResponse_chart_id = ''c1'',
                     LikeResponse_created_at = 5\<rparr>)"
  by (simp add: like_chart_def first_def Let_def sample_defs)

text \<open>
  C5. For a chart that exists: saving it when the caller already has a SavedChart row
  for it fails with 400 (Conflict), and so does liking it when the caller already has a
  Like row; when the caller has no such row, the save (like) succeeds and appends the
  join row, a second save (like) in the resulting store fails with 400, and after an
  unsave in that store a further save succeeds again.
\<close>

theorem save_like_conflict:
  assumes "lookup_chart d chart_id = Some chart"
  shows "(has_saved d u chart_id \<longrightarrow>
            save_chart d now new_id chart_id u = Inl (HTTPException 400 ''Chart already saved'')) \<and>
         (has_liked d u chart_id \<longrightarrow>
            like_chart d now new_id chart_id u = Inl (HTTPException 400 ''Chart already liked'')) \<and>
         (\<not> has_saved d u chart_id \<longrightarrow>
            (\<exists>d1 r1. save_chart d now new_id chart_id u = Inr (d1, r1) \<and>
               saved_charts d1 = saved_charts d @ [new_saved now new_id chart_id u] \<and>
               save_chart d1 now2 id2 chart_id u =
                 Inl (HTTPException 400 ''Chart already saved'') \<and>
               (\<exists>d2. unsave_chart d1 chart_id u = Inr d2 \<and>
                  (\<exists>d3 r3. save_chart d2 now3 id3 chart_id u = Inr (d3, r3))))) \<and>
         (\<not> has_liked d u chart_id \<longrightarrow>
            (\<exists>d1 r1. like_chart d now new_id chart_id u = Inr (d1, r1) \<and>
               likes d1 = likes d @ [new_like now new_id chart_id u] \<and>
               like_chart d1 now2 id2 chart_id u =
                 Inl (HTTPException 400 ''Chart already liked'')))"
proof (intro conjI impI)
  assume "has_saved d u chart_id"
  with assms show "save_chart d now new_id chart_id u =
      Inl (HTTPException 400 ''Chart already saved'')"
    by (rule save_chart_conflict)
next
  assume "has_liked d u chart_id"
  with assms show "like_chart d now new_id chart_id u =
      Inl (HTTPException 400 ''Chart already liked'')"
    by (rule like_chart_conflict)
next
  assume fresh: "\<not> has_saved d u chart_id"
  let ?d1 = "d\<lparr>saved_charts := saved_charts d @ [new_saved now new_id chart_id u]\<rparr>"
  from save_chart_fresh [OF assms fresh] obtain r1 where
    s1: "save_chart d now new_id chart_id u = Inr (?d1, r1)" by blast
  have c1: "lookup_chart ?d1 chart_id = Some chart"
    using assms by (simp add: lookup_chart_def)
  have s2: "save_chart ?d1 now2 id2 chart_id u = Inl (HTTPException 400 ''Chart already saved'')"
    using c1 has_saved_append by (rule save_chart_conflict)
  have u1: "unsave_chart ?d1 chart_id u = Inr d"
    using fresh by (rule unsave_after_save)
  from save_chart_fresh [OF assms fresh] obtain r3 d3 where
    s3: "save_chart d now3 id3 chart_id u = Inr (d3, r3)" by blast
  show "\<exists>d1 r1. save_chart d now new_id chart_id u = Inr (d1, r1) \<and>
               saved_charts d1 = saved_charts d @ [new_saved now new_id chart_id u] \<and>
               save_chart d1 now2 id2 chart_id u =
                 Inl (HTTPException 400 ''Chart already saved'') \<and>
               (\<exists>d2. unsave_chart d1 chart_id u = Inr d2 \<and>
                  (\<exists>d3 r3. save_chart d2 now3 id3 chart_id u = Inr (d3, r3)))"
    using s1 s2 u1 s3 by (intro exI [of _ ?d1] exI [of _ r1]) auto
next
  assume fresh: "\<not> has_liked d u chart_id"
  let ?c' = "chart\<lparr>Chart_like_count := Chart_like_count chart + 1, Chart_updated_at := now\<rparr>"
  let ?d1 = "d\<lparr>likes := likes d @ [new_like now new_id chart_id u],
                charts := write_back (\<lambda>c. Chart_id c = chart_id) ?c' (charts d)\<rparr>"
  from like_chart_fresh [OF assms fresh] obtain r1 where
    s1: "like_chart d now new_id chart_id u = Inr (?d1, r1)" by blast
  have c1: "lookup_chart ?d1 chart_id = Some ?c'"
    using assms by (rule lookup_after_like)
  have s2: "like_chart ?d1 now2 id2 chart_id u = Inl (HTTPException 400 ''Chart already liked'')"
    using c1 has_liked_append by (rule like_chart_conflict)
  show "\<exists>d1 r1. like_chart d now new_id chart_id u = Inr (d1, r1) \<and>
               likes d1 = likes d @ [new_like now new_id chart_id u] \<and>
               like_chart d1 now2 id2 chart_id u =
                 Inl (HTTPException 400 ''Chart already liked'')"
    using s1 s2 by (intro exI [of _ ?d1] exI [of _ r1]) auto
qed

theorem save_like_conflict_witness:
  "lookup_chart db_saved ''c1'' = Some chart1 \<and> has_saved db_saved bob ''c1'' \<and>
   save_chart db_saved 6 ''s2'' ''c1'' bob = Inl (HTTPException 400 ''Chart already saved'') \<and>
   lookup_chart db_liked ''c1'' = Some chart1_liked \<and> has_liked db_liked bob ''c1'' \<and>
   like_chart db_liked 6 ''l2'' ''c1'' bob = Inl (HTTPException 400 ''Chart already liked'') \<and>
   lookup_chart db1 ''c1'' = Some chart1 \<and>
   \<not> has_saved db1 bob ''c1'' \<and> \<not> isl (save_chart db1 5 ''s1'' ''c1'' bob) \<and>
   \<not> has_liked db1 bob ''c1'' \<and> \<not> isl (like_chart db1 5 ''l1'' ''c1'' bob)"
proof -
  have hs: "has_saved db_saved bob ''c1''"
    by (simp add: has_saved_def sample_defs)
  have hl: "has_liked db_liked bob ''c1''"
    by (simp add: has_liked_def sample_defs)
  have a: "save_chart db_saved 6 ''s2'' ''c1'' bob = Inl (HTTPException 400 ''Chart already saved'')"
    using save_like_conflict [OF lookup_db_saved, of bob 6 "''s2''"] hs by simp
  have b: "like_chart db_liked 6 ''l2'' ''c1'' bob = Inl (HTTPException 400 ''Chart already liked'')"
    using save_like_conflict [OF lookup_db_liked, of bob 6 "''l2''"] hl by simp
  have c: "\<not> isl (save_chart db1 5 ''s1'' ''c1'' bob)"
    using save_like_conflict [OF lookup_db1, where u = bob and now = 5 and new_id = "''s1''"
        and ?now2.0 = 6 and ?id2.0 = "''s2''" and ?now3.0 = 7 and ?id3.0 = "''s3''"] db1_fresh
    by auto
  have e: "\<not> isl (like_chart db1 5 ''l1'' ''c1'' bob)"
    using save_like_conflict [OF lookup_db1, where u = bob and now = 5 and new_id = "''l1''"
        and ?now2.0 = 6 and ?id2.0 = "''l2''" and ?now3.0 = 7 and ?id3.0 = "''l3''"] db1_fresh
    by auto
  show ?thesis
    using lookup_db_saved lookup_db_liked lookup_db1 db1_fresh hs hl a b c e by simp
qed

text \<open>
  C10. For a chart that exists, whatever its visibility flag and whoever owns it: when
  the caller has no Like row for it, liking succeeds and appends the Like row; when the
  caller has no SavedChart row for it, saving succeeds and appends the SavedChart row.
  Neither endpoint looks at \<open>is_public\<close> or at the owner.
\<close>

theorem like_save_any_chart:
  assumes "lookup_chart d chart_id = Some chart"
  shows "(\<not> has_liked d u chart_id \<longrightarrow>
           (\<exists>d' r. like_chart d now new_id chart_id u = Inr (d', r) \<and>
              likes d' = likes d @ [new_like now new_id chart_id u] \<and>
              LikeResponse_chart_id r = chart_id)) \<and>
         (\<not> has_saved d u chart_id \<longrightarrow>
           (\<exists>d' r. save_chart d now new_id chart_id u = Inr (d', r) \<and>
              saved_charts d' = saved_charts d @ [new_saved now new_id chart_id u] \<and>
              SavedChartResponse_chart_id r = chart_id))"
  using assms
  by (auto simp: like_chart_def save_chart_def lookup_chart_def has_liked_first has_saved_first
      new_like_def new_saved_def Let_def split: option.splits)

text \<open>\<open>bob\<close> likes and saves \<open>chart1\<close>, which is private and belongs to \<open>alice\<close>.\<close>

theorem like_save_any_chart_witness:
  "lookup_chart db1 ''c1'' = Some chart1 \<and> Chart_is_public chart1 = 0 \<and>
   Chart_user_id chart1 \<noteq> User_id bob \<and>
   \<not> has_liked db1 bob ''c1'' \<and> \<not> isl (like_chart db1 5 ''l1'' ''c1'' bob) \<and>
   \<not> has_saved db1 bob ''c1'' \<and> \<not> isl (save_chart db1 5 ''s1'' ''c1'' bob)"
proof -
  have p: "Chart_is_public chart1 = 0 \<and> Chart_user_id chart1 \<noteq> User_id bob"
    by (simp add: sample_defs)
  have a: "\<not> isl (like_chart db1 5 ''l1'' ''c1'' bob)"
    using like_save_any_chart [OF lookup_db1, of bob 5 "''l1''"] db1_fresh by auto
  have b: "\<not> isl (save_chart db1 5 ''s1'' ''c1'' bob)"
    using like_save_any_chart [OF lookup_db1, of bob 5 "''s1''"] db1_fresh by auto
  show ?thesis using lookup_db1 p db1_fresh a b by simp
qed

section \<open>Unliking\<close>

lemma unlike_chart_missing:
  "\<not> has_liked d u chart_id \<Longrightarrow>
   unlike_chart d now chart_id u = Inl (HTTPException 404 ''Like not found'')"
  by (simp add: unlike_chart_def has_liked_first)

lemma unlike_chart_present:
  assumes l: "first (\<lambda>l. Like_user_id l = User_id u \<and> Like_chart_id l = chart_id) (likes d) = Some l"
  shows "\<exists>d'. unlike_chart d now chart_id u = Inr d' \<and>
           likes d' = remove1 l (likes d) \<and> users d' = users d \<and>
           saved_charts d' = saved_charts d \<and>
           (lookup_chart d chart_id = None \<longrightarrow> charts d' = charts d) \<and>
           (\<forall>c. lookup_chart d chart_id = Some c \<longrightarrow>
              map_option Chart_like_count (lookup_chart d' chart_id) =
                Some (if Chart_like_count c > 0 then Chart_like_count c - 1
                      else Chart_like_count c) \<and>
              (0 \<le> Chart_like_count c \<longrightarrow>
                 map_option Chart_like_count (lookup_chart d' chart_id) =
                   Some (max 0 (Chart_like_count c - 1))))"
proof (cases "lookup_chart d chart_id")
  case None
  then show ?thesis using l
    by (simp add: unlike_chart_def lookup_chart_def Let_def)
next
  case (Some c)
  show ?thesis
  proof (cases "Chart_like_count c > 0")
    case True
    let ?c' = "c\<lparr>Chart_like_count := Chart_like_count c - 1, Chart_updated_at := now\<rparr>"
    let ?d' = "d\<lparr>likes := remove1 l (likes d),
                  charts := write_back (\<lambda>c. Chart_id c = chart_id) ?c' (charts d)\<rparr>"
    have u: "unlike_chart d now chart_id u = Inr ?d'"
      using l Some True by (simp add: unlike_chart_def lookup_chart_def Let_def)
    have lk: "lookup_chart ?d' chart_id = Some ?c'"
      using Some by (rule lookup_after_like)
    have "map_option Chart_like_count (lookup_chart ?d' chart_id) = Some (Chart_like_count c - 1)"
      unfolding lk by simp
    then show ?thesis using u Some True
      by (intro exI [of _ ?d']) (simp add: max_def)
  next
    case False
    have u: "unlike_chart d now chart_id u = Inr (d\<lparr>likes := remove1 l (likes d)\<rparr>)"
      using l Some False by (simp add: unlike_chart_def lookup_chart_def Let_def)
    have lk: "lookup_chart (d\<lparr>likes := remove1 l (likes d)\<rparr>) chart_id = Some c"
      using Some by (simp add: lookup_chart_def)
    show ?thesis using u Some False lk
      by (intro exI [of _ "d\<lparr>likes := remove1 l (likes d)\<rparr>"]) (auto simp: max_def)
  qed
qed

lemma like_then_unlike:
  assumes c: "lookup_chart d chart_id = Some c" and nn: "0 \<le> Chart_like_count c"
    and lk: "like_chart d now1 new_id chart_id u = Inr (d1, r1)"
  shows "\<exists>d2. unlike_chart d1 now chart_id u = Inr d2 \<and>
           map_option Chart_like_count (lookup_chart d2 chart_id) = Some (Chart_like_count c) \<and>
           likes d2 = likes d"
proof -
  let ?Q = "\<lambda>l. Like_user_id l = User_id u \<and> Like_chart_id l = chart_id"
  let ?P = "\<lambda>c. Chart_id c = chart_id"
  let ?l = "new_like now1 new_id chart_id u"
  define c1 where "c1 = c\<lparr>Chart_like_count := Chart_like_count c + 1, Chart_updated_at := now1\<rparr>"
  have fresh: "\<not> has_liked d u chart_id"
    using lk c like_chart_conflict [OF c, of u now1 new_id] by auto
  from like_chart_fresh [OF c fresh, of now1 new_id] lk
  have d1: "d1 = d\<lparr>likes := likes d @ [?l], charts := write_back ?P c1 (charts d)\<rparr>"
    by (auto simp: c1_def)
  have none: "first ?Q (likes d) = None"
    using fresh by (simp add: has_liked_first)
  have Q: "?Q ?l" by (simp add: new_like_def)
  have f1: "first ?Q (likes d1) = Some ?l"
    unfolding d1 using first_append_new [OF none, of ?l] Q by simp
  have "?l \<notin> set (likes d)"
    using none Q by (auto simp: first_None_iff list_ex_iff)
  then have rm: "remove1 ?l (likes d1) = likes d"
    unfolding d1 by (simp add: remove1_append_new)
  have l1: "lookup_chart d1 chart_id = Some c1"
    unfolding d1 c1_def using c by (rule lookup_after_like)
  have pos: "Chart_like_count c1 > 0" using nn by (simp add: c1_def)
  define c2 where "c2 = c1\<lparr>Chart_like_count := Chart_like_count c1 - 1, Chart_updated_at := now\<rparr>"
  define d2 where "d2 = d1\<lparr>likes := likes d, charts := write_back ?P c2 (charts d1)\<rparr>"
  have u: "unlike_chart d1 now chart_id u = Inr d2"
    using f1 l1 pos rm by (simp add: unlike_chart_def lookup_chart_def Let_def d2_def c2_def)
  have "lookup_chart d2 chart_id = Some c2"
    unfolding d2_def c2_def using l1 by (rule lookup_after_like)
  then have "map_option Chart_like_count (lookup_chart d2 chart_id) = Some (Chart_like_count c)"
    by (simp add: c2_def c1_def)
  moreover have "likes d2 = likes d" by (simp add: d2_def)
  ultimately show ?thesis using u by blast
qed

text \<open>
  C6. Unliking a chart for which the caller holds no Like row fails with 404 (NotFound);
  the error is raised before anything is written, so the store stays as it was. When the
  caller's Like row exists, unlike returns one new store in which that row is deleted and
  the chart's \<open>like_count\<close> is one lower if it was positive and unchanged otherwise, which
  for a count that is not negative is the decrement floored at zero; users and saved
  charts are untouched. For a chart whose \<open>like_count\<close> is not negative, a successful like
  followed by unlike by the same caller brings \<open>like_count\<close>, and the Like table, back to
  what they were before the like.
\<close>

theorem unlike_chart_spec:
  "(\<not> has_liked d u chart_id \<longrightarrow>
      unlike_chart d now chart_id u = Inl (HTTPException 404 ''Like not found'')) \<and>
   (first (\<lambda>l. Like_user_id l = User_id u \<and> Like_chart_id l = chart_id) (likes d) = Some l \<longrightarrow>
      (\<exists>d'. unlike_chart d now chart_id u = Inr d' \<and>
           likes d' = remove1 l (likes d) \<and> users d' = users d \<and>
           saved_charts d' = saved_charts d \<and>
           (lookup_chart d chart_id = None \<longrightarrow> charts d' = charts d) \<and>
           (\<forall>c. lookup_chart d chart_id = Some c \<longrightarrow>
              map_option Chart_like_count (lookup_chart d' chart_id) =
                Some (if Chart_like_count c > 0 then Chart_like_count c - 1
                      else Chart_like_count c) \<and>
              (0 \<le> Chart_like_count c \<longrightarrow>
                 map_option Chart_like_count (lookup_chart d' chart_id) =
                   Some (max 0 (Chart_like_count c - 1)))))) \<and>
   (lookup_chart d chart_id = Some c \<and> 0 \<le> Chart_like_count c \<and>
    like_chart d now1 new_id chart_id u = Inr (d1, r1) \<longrightarrow>
      (\<exists>d2. unlike_chart d1 now chart_id u = Inr d2 \<and>
           map_option Chart_like_count (lookup_chart d2 chart_id) = Some (Chart_like_count c) \<and>
           likes d2 = likes d))"
  using unlike_chart_missing [of d u chart_id now]
    unlike_chart_present [of u chart_id d l now]
    like_then_unlike [of d chart_id c now1 new_id u d1 r1 now]
  by blast

theorem unlike_chart_spec_witness:
  "\<not> has_liked db1 bob ''c1'' \<and>
   unlike_chart db1 6 ''c1'' bob = Inl (HTTPException 404 ''Like not found'') \<and>
   first (\<lambda>l. Like_user_id l = User_id bob \<and> Like_chart_id l = ''c1'') (likes db_liked) =
     Some (new_like 5 ''l1'' ''c1'' bob) \<and>
   lookup_chart db1 ''c1'' = Some chart1 \<and> 0 \<le> Chart_like_count chart1 \<and>
   \<not> isl (like_chart db1 5 ''l1'' ''c1'' bob) \<and>
   fst (projr (like_chart db1 5 ''l1'' ''c1'' bob)) = db_liked \<and>
   \<not> isl (unlike_chart db_liked 6 ''c1'' bob) \<and>
   likes (projr (unlike_chart db_liked 6 ''c1'' bob)) = [] \<and>
   map_option Chart_like_count (lookup_chart (projr (unlike_chart db_liked 6 ''c1'' bob)) ''c1'') =
     Some 0"
proof -
  have f: "first (\<lambda>l. Like_user_id l = User_id bob \<and> Like_chart_id l = ''c1'') (likes db_liked) =
     Some (new_like 5 ''l1'' ''c1'' bob)"
    by (simp add: first_def sample_defs)
  have n: "0 \<le> Chart_like_count chart1" "Chart_like_count chart1 = 0" "likes db1 = []"
    by (simp_all add: sample_defs)
  have a: "unlike_chart db1 6 ''c1'' bob = Inl (HTTPException 404 ''Like not found'')"
    using unlike_chart_spec [where d = db1 and u = bob and chart_id = "''c1''" and now = 6]
      db1_fresh by simp
  from unlike_chart_spec [where d = db_liked and u = bob and chart_id = "''c1''" and now = 6
      and l = "new_like 5 ''l1'' ''c1'' bob"] f
  obtain d' where b: "unlike_chart db_liked 6 ''c1'' bob = Inr d'"
    by blast
  from unlike_chart_spec [where d = db1 and u = bob and chart_id = "''c1''" and now = 6
      and c = chart1 and ?now1.0 = 5 and new_id = "''l1''" and ?d1.0 = db_liked
      and ?r1.0 = "\<lparr>LikeResponse_id = ''l1'', LikeResponse_chart_id = ''c1'',
        LikeResponse_created_at = 5\<rparr>"] lookup_db1 n like_chart_db1
  obtain d2 where c: "unlike_chart db_liked 6 ''c1'' bob = Inr d2"
    and e: "map_option Chart_like_count (lookup_chart d2 ''c1'') = Some 0"
    and g: "likes d2 = []"
    by auto
  show ?thesis
    using db1_fresh a f lookup_db1 n c e g by (simp add: like_chart_db1)
qed

section \<open>The like counter\<close>

lemma map_write_back:
  "f y = k \<Longrightarrow> map f (write_back (\<lambda>x. f x = k) y xs) = map f xs"
  by (induction xs) auto

lemma set_write_back:
  "distinct (map f xs) \<Longrightarrow> z \<in> set (write_back (\<lambda>x. f x = k) y xs) \<Longrightarrow>
   z = y \<or> (z \<in> set xs \<and> f z \<noteq> k)"
proof (induction xs)
  case Nil
  then show ?case by simp
next
  case (Cons x xs)
  show ?case
  proof (cases "f x = k")
    case True
    with Cons.prems have "z = y \<or> z \<in> set xs" by simp
    moreover have "\<forall>w\<in>set xs. f w \<noteq> k"
      using Cons.prems(1) True by (fastforce simp: image_iff)
    ultimately show ?thesis by auto
  next
    case False
    with Cons show ?thesis by auto
  qed
qed

lemma length_filter_remove1:
  "l \<in> set xs \<Longrightarrow>
   length (filter Q xs) = length (filter Q (remove1 l xs)) + (if Q l then 1 else 0)"
  by (induction xs) auto

lemma like_rows_remove1:
  assumes "l \<in> set (likes d)" and "likes e = remove1 l (likes d)"
  shows "like_rows d k = like_rows e k + (if Like_chart_id l = k then 1 else 0)"
  unfolding like_rows_def assms(2)
  using assms(1) by (rule length_filter_remove1)

lemma like_chart_preserves:
  assumes ok: "like_count_consistent d" and dist: "chart_ids_distinct d"
    and step: "like_chart d now new_id chart_id u = Inr (d', r)"
  shows "like_count_consistent d' \<and> chart_ids_distinct d'"
proof -
  from step obtain chart where c: "first (\<lambda>c. Chart_id c = chart_id) (charts d) = Some chart"
    by (cases "first (\<lambda>c. Chart_id c = chart_id) (charts d)") (simp_all add: like_chart_def)
  define c' where "c' = chart\<lparr>Chart_like_count := Chart_like_count chart + 1,
    Chart_updated_at := now\<rparr>"
  let ?l = "new_like now new_id chart_id u"
  from step c have ld: "likes d' = likes d @ [?l]"
    and cd: "charts d' = write_back (\<lambda>c. Chart_id c = chart_id) c' (charts d)"
    by (auto simp: like_chart_def Let_def new_like_def c'_def split: option.splits)
  have cin: "chart \<in> set (charts d)" and cid: "Chart_id chart = chart_id"
    using first_Some_holds [OF c] by simp_all
  have rows: "like_rows d' k = like_rows d k + (if k = chart_id then 1 else 0)" for k
    unfolding like_rows_def ld by (simp add: new_like_def)
  have old: "Chart_like_count x = int (like_rows d (Chart_id x))" if "x \<in> set (charts d)" for x
    using ok that by (simp add: like_count_consistent_def list_all_iff)
  have c'id: "Chart_id c' = chart_id"
    and c'cnt: "Chart_like_count c' = int (like_rows d' chart_id)"
    using cid old [OF cin] rows [of chart_id] by (simp_all add: c'_def)
  have "Chart_like_count z = int (like_rows d' (Chart_id z))" if z: "z \<in> set (charts d')" for z
  proof -
    from z have "z \<in> set (write_back (\<lambda>c. Chart_id c = chart_id) c' (charts d))"
      using cd by simp
    with dist have "z = c' \<or> (z \<in> set (charts d) \<and> Chart_id z \<noteq> chart_id)"
      unfolding chart_ids_distinct_def by (rule set_write_back)
    then show ?thesis
    proof
      assume "z = c'"
      then show ?thesis using c'id c'cnt by simp
    next
      assume "z \<in> set (charts d) \<and> Chart_id z \<noteq> chart_id"
      then show ?thesis using old [of z] rows [of "Chart_id z"] by simp
    qed
  qed
  then have 1: "like_count_consistent d'"
    by (simp add: like_count_consistent_def list_all_iff)
  have "map Chart_id (charts d') = map Chart_id (charts d)"
    unfolding cd using map_write_back [of Chart_id c' chart_id "charts d"] c'id by simp
  then have 2: "chart_ids_distinct d'"
    using dist by (simp add: chart_ids_distinct_def)
  from 1 2 show ?thesis ..
qed

lemma unlike_chart_preserves:
  assumes ok: "like_count_consistent d" and dist: "chart_ids_distinct d"
    and step: "unlike_chart d now chart_id u = Inr d'"
  shows "like_count_consistent d' \<and> chart_ids_distinct d'"
proof -
  let ?Q = "\<lambda>l. Like_user_id l = User_id u \<and> Like_chart_id l = chart_id"
  let ?P = "\<lambda>c. Chart_id c = chart_id"
  from step obtain l where l: "first ?Q (likes d) = Some l"
    by (cases "first ?Q (likes d)") (simp_all add: unlike_chart_def)
  have lin: "l \<in> set (likes d)" and lid: "Like_chart_id l = chart_id"
    using first_Some_holds [OF l] by simp_all
  from step l have ld: "likes d' = remove1 l (likes d)"
    by (auto simp: unlike_chart_def Let_def)
  have rows_same: "like_rows d k = like_rows d' k" if "k \<noteq> chart_id" for k
    using like_rows_remove1 [OF lin ld, of k] lid that by simp
  have rows_this: "like_rows d chart_id = like_rows d' chart_id + 1"
    using like_rows_remove1 [OF lin ld, of chart_id] lid by simp
  have old: "Chart_like_count x = int (like_rows d (Chart_id x))" if "x \<in> set (charts d)" for x
    using ok that by (simp add: like_count_consistent_def list_all_iff)
  show ?thesis
  proof (cases "first ?P (charts d)")
    case None
    with step l have cd: "charts d' = charts d"
      by (auto simp: unlike_chart_def Let_def)
    have no: "Chart_id x \<noteq> chart_id" if "x \<in> set (charts d)" for x
      using None that by (auto simp: first_None_iff list_ex_iff)
    have "Chart_like_count z = int (like_rows d' (Chart_id z))" if "z \<in> set (charts d')" for z
    proof -
      from that cd have zin: "z \<in> set (charts d)" by simp
      show ?thesis using old [OF zin] rows_same [OF no [OF zin]] by simp
    qed
    then have "like_count_consistent d'"
      by (simp add: like_count_consistent_def list_all_iff)
    moreover have "chart_ids_distinct d'"
      using dist cd by (simp add: chart_ids_distinct_def)
    ultimately show ?thesis ..
  next
    case (Some chart)
    have cin: "chart \<in> set (charts d)" and cid: "Chart_id chart = chart_id"
      using first_Some_holds [OF Some] by simp_all
    have cnt: "Chart_like_count chart = int (like_rows d' chart_id) + 1"
      using old [OF cin] cid rows_this by simp
    then have gt: "Chart_like_count chart > 0" by simp
    define c' where "c' = chart\<lparr>Chart_like_count := Chart_like_count chart - 1,
      Chart_updated_at := now\<rparr>"
    from step l Some gt have cd: "charts d' = write_back ?P c' (charts d)"
      by (auto simp: unlike_chart_def Let_def c'_def)
    have c'id: "Chart_id c' = chart_id"
      and c'cnt: "Chart_like_count c' = int (like_rows d' chart_id)"
      using cid cnt by (simp_all add: c'_def)
    have "Chart_like_count z = int (like_rows d' (Chart_id z))" if z: "z \<in> set (charts d')" for z
    proof -
      from z have "z \<in> set (write_back ?P c' (charts d))"
        using cd by simp
      with dist have "z = c' \<or> (z \<in> set (charts d) \<and> Chart_id z \<noteq> chart_id)"
        unfolding chart_ids_distinct_def by (rule set_write_back)
      then show ?thesis
      proof
        assume "z = c'"
        then show ?thesis using c'id c'cnt by simp
      next
        assume a: "z \<in> set (charts d) \<and> Chart_id z \<noteq> chart_id"
        then have "like_rows d (Chart_id z) = like_rows d' (Chart_id z)"
          using rows_same by blast
        then show ?thesis using old [of z] a by simp
      qed
    qed
    then have "like_count_consistent d'"
      by (simp add: like_count_consistent_def list_all_iff)
    moreover have "map Chart_id (charts d') = map Chart_id (charts d)"
      unfolding cd using map_write_back [of Chart_id c' chart_id "charts d"] c'id by simp
    then have "chart_ids_distinct d'"
      using dist by (simp add: chart_ids_distinct_def)
    ultimately show ?thesis ..
  qed
qed

lemma handle_preserves:
  assumes inv: "like_count_consistent d \<and> chart_ids_distinct d"
  shows "like_count_consistent (handle d q) \<and> chart_ids_distinct (handle d q)"
proof (cases q)
  case (LikeRequest now new_id chart_id u)
  show ?thesis
  proof (cases "like_chart d now new_id chart_id u")
    case (Inl e)
    with LikeRequest inv show ?thesis by simp
  next
    case (Inr p)
    obtain d' r where p: "p = (d', r)" by (cases p)
    with Inr LikeRequest have "handle d q = d'" by simp
    moreover have "like_count_consistent d' \<and> chart_ids_distinct d'"
      using like_chart_preserves [of d now new_id chart_id u d' r] inv Inr p by simp
    ultimately show ?thesis by simp
  qed
next
  case (UnlikeRequest now chart_id u)
  show ?thesis
  proof (cases "unlike_chart d now chart_id u")
    case (Inl e)
    with UnlikeRequest inv show ?thesis by simp
  next
    case (Inr d')
    with UnlikeRequest have "handle d q = d'" by simp
    moreover have "like_count_consistent d' \<and> chart_ids_distinct d'"
      using unlike_chart_preserves [of d now chart_id u d'] inv Inr by simp
    ultimately show ?thesis by simp
  qed
qed

lemma foldl_handle_preserves:
  "like_count_consistent d \<and> chart_ids_distinct d \<Longrightarrow>
   like_count_consistent (foldl handle d qs) \<and> chart_ids_distinct (foldl handle d qs)"
proof (induction qs arbitrary: d)
  case Nil
  then show ?case by simp
next
  case (Cons q qs)
  from Cons.prems have "like_count_consistent (handle d q) \<and> chart_ids_distinct (handle d q)"
    by (rule handle_preserves)
  then show ?case using Cons.IH by simp
qed

text \<open>
  C7. From a store in which chart ids are unique (\<^verbatim>\<open>Chart.id\<close> is the primary key) and
  every chart's \<open>like_count\<close> equals the number of Like rows that reference it, every
  sequence of like and unlike requests, by any callers on any chart ids, failed requests
  included, leads to a store in which every chart's \<open>like_count\<close> again equals the number
  of Like rows that reference it, and is not negative.
\<close>

theorem like_count_invariant:
  assumes "chart_ids_distinct d" and "like_count_consistent d"
  shows "like_count_consistent (foldl handle d qs) \<and>
         list_all (\<lambda>c. 0 \<le> Chart_like_count c) (charts (foldl handle d qs))"
proof -
  have ok: "like_count_consistent (foldl handle d qs)"
    using foldl_handle_preserves [of d qs] assms by simp
  then have "list_all (\<lambda>c. 0 \<le> Chart_like_count c) (charts (foldl handle d qs))"
    by (auto simp: like_count_consistent_def list_all_iff)
  with ok show ?thesis ..
qed

theorem like_count_invariant_witness:
  "chart_ids_distinct db1 \<and> like_count_consistent db1 \<and>
   like_count_consistent
     (foldl handle db1
        [LikeRequest 5 ''l1'' ''c1'' bob, LikeRequest 6 ''l2'' ''c1'' bob,
         UnlikeRequest 7 ''c2'' bob, LikeRequest 8 ''l3'' ''c2'' alice,
         UnlikeRequest 9 ''c1'' bob]) \<and>
   list_all (\<lambda>c. 0 \<le> Chart_like_count c)
     (charts (foldl handle db1
        [LikeRequest 5 ''l1'' ''c1'' bob, LikeRequest 6 ''l2'' ''c1'' bob,
         UnlikeRequest 7 ''c2'' bob, LikeRequest 8 ''l3'' ''c2'' alice,
         UnlikeRequest 9 ''c1'' bob]))"
proof -
  have h1: "chart_ids_distinct db1"
    by (simp add: chart_ids_distinct_def sample_defs)
  have h2: "like_count_consistent db1"
    by (simp add: like_count_consistent_def like_rows_def sample_defs)
  from like_count_invariant [OF h1 h2] h1 h2 show ?thesis by blast
qed

section \<open>Tokens\<close>

text \<open>
  C4. A token that \<^verbatim>\<open>create_access_token\<close> issues for a user id carries that id as
  subject, an expiry claim seven days (604800 seconds) after the clock reading at
  issuance, and the issued-at claim. Decoded with the same secret at any time before
  the expiry, \<^verbatim>\<open>decode_token\<close> returns that payload and logs nothing; at the expiry
  or later it returns None and logs \<open>Token expired\<close>.
\<close>

theorem token_roundtrip:
  "timedelta_days JWT_EXPIRATION_DAYS = 7 * 86400 \<and>
   (now < now_exp + 7 * 86400 \<longrightarrow>
      decode_token secret now (create_access_token secret now_exp now_iat user_id) =
        (Some \<lparr>sub = Some user_id, exp = Some (now_exp + 7 * 86400), iat = Some now_iat\<rparr>, [])) \<and>
   (now_exp + 7 * 86400 \<le> now \<longrightarrow>
      decode_token secret now (create_access_token secret now_exp now_iat user_id) =
        (None, [Warning ''Token expired'']))"
  by (simp add: decode_token_def create_access_token_def jwt_encode_def
      timedelta_days_def JWT_EXPIRATION_DAYS_def)

theorem token_roundtrip_witness:
  "(100::int) < 0 + 7 * 86400 \<and>
   decode_token ''k'' 100 (create_access_token ''k'' 0 0 ''ub'') =
     (Some \<lparr>sub = Some ''ub'', exp = Some 604800, iat = Some 0\<rparr>, []) \<and>
   (0::int) + 7 * 86400 \<le> 604800 \<and>
   decode_token ''k'' 604800 (create_access_token ''k'' 0 0 ''ub'') =
     (None, [Warning ''Token expired''])"
  using token_roundtrip [of 100 0 "''k''" 0 "''ub''"]
    token_roundtrip [of 604800 0 "''k''" 0 "''ub''"]
  by simp

text \<open>
  C9. \<^verbatim>\<open>decode_token\<close> returns None in both failure cases and tells them apart in the
  log. A token signed with the service's secret whose expiry claim has passed is logged
  as \<open>Token expired\<close>. A token signed with a different secret, a token whose payload is
  not the payload that was signed, and a string that is no token at all are logged as
  \<open>Invalid token: ...\<close>, whatever their expiry claim. The two log records are never equal.
\<close>

theorem decode_token_failures:
  "(exp payload = Some e \<and> e \<le> now \<longrightarrow>
      decode_token secret now (jwt_encode payload secret) = (None, [Warning ''Token expired''])) \<and>
   (key \<noteq> secret \<longrightarrow>
      (\<exists>msg. decode_token secret now (jwt_encode payload key) =
         (None, [Warning (''Invalid token: '' @ msg)]))) \<and>
   (payload' \<noteq> payload \<longrightarrow>
      (\<exists>msg. decode_token secret now (JWS payload' (HS256 secret payload)) =
         (None, [Warning (''Invalid token: '' @ msg)]))) \<and>
   (\<exists>msg. decode_token secret now (Undecodable s) =
         (None, [Warning (''Invalid token: '' @ msg)])) \<and>
   (\<forall>msg. Warning ''Token expired'' \<noteq> Warning (''Invalid token: '' @ msg))"
  by (simp add: decode_token_def jwt_encode_def)

theorem decode_token_failures_witness:
  "exp claims_bob = Some 604800 \<and> (604800::int) \<le> 700000 \<and>
   decode_token ''k'' 700000 (jwt_encode claims_bob ''k'') = (None, [Warning ''Token expired'']) \<and>
   ''other'' \<noteq> ''k'' \<and>
   fst (decode_token ''k'' 100 (jwt_encode claims_bob ''other'')) = None \<and>
   snd (decode_token ''k'' 100 (jwt_encode claims_bob ''other'')) \<noteq> [Warning ''Token expired''] \<and>
   claims_bob\<lparr>sub := Some ''ua''\<rparr> \<noteq> claims_bob \<and>
   fst (decode_token ''k'' 100 (JWS (claims_bob\<lparr>sub := Some ''ua''\<rparr>) (HS256 ''k'' claims_bob))) = None"
proof -
  have h1: "exp claims_bob = Some 604800 \<and> (604800::int) \<le> 700000"
    by (simp add: claims_bob_def)
  have h2: "''other'' \<noteq> ''k''" by simp
  have h3: "claims_bob\<lparr>sub := Some ''ua''\<rparr> \<noteq> claims_bob"
    by (simp add: claims_bob_def)
  from decode_token_failures [where payload = claims_bob and e = 604800 and now = 700000
      and secret = "''k''"] h1
  have a: "decode_token ''k'' 700000 (jwt_encode claims_bob ''k'') = (None, [Warning ''Token expired''])"
    by simp
  note f = decode_token_failures [where payload = claims_bob and e = 0 and now = 100
      and secret = "''k''" and key = "''other''" and s = "[]"
      and payload' = "claims_bob\<lparr>sub := Some ''ua''\<rparr>"]
  from f h2 obtain m1 where
    m1: "decode_token ''k'' 100 (jwt_encode claims_bob ''other'') =
      (None, [Warning (''Invalid token: '' @ m1)])"
    by blast
  from f h3 obtain m2 where
    m2: "decode_token ''k'' 100 (JWS (claims_bob\<lparr>sub := Some ''ua''\<rparr>) (HS256 ''k'' claims_bob)) =
      (None, [Warning (''Invalid token: '' @ m2)])"
    by blast
  have b: "fst (decode_token ''k'' 100 (jwt_encode claims_bob ''other'')) = None"
    and c: "snd (decode_token ''k'' 100 (jwt_encode claims_bob ''other'')) \<noteq> [Warning ''Token expired'']"
    using m1 by simp_all
  have e: "fst (decode_token ''k'' 100 (JWS (claims_bob\<lparr>sub := Some ''ua''\<rparr>) (HS256 ''k'' claims_bob))) = None"
    using m2 by simp
  from h1 h2 h3 a b c e show ?thesis by simp
qed

section \<open>Identity resolution\<close>

text \<open>
  C3, as the code has it. When the request carries a non-empty \<open>auth_token\<close> cookie,
  \<^verbatim>\<open>get_current_user\<close> and \<^verbatim>\<open>get_optional_user\<close> give the same result whatever the
  Authorization header is, and the same as with no header at all: only the cookie's token
  is decoded. If that token decodes to a payload whose subject is the id of a stored
  user, that user is the one resolved. A cookie with an empty value counts as absent:
  both functions give the same result as for the request without the cookie, and when the
  header then carries a non-empty token that decodes to a payload whose subject is the id
  of a stored user, that user is the one resolved.
\<close>

theorem cookie_precedence:
  "(truthy_token c \<longrightarrow>
      get_current_user d secret now creds (Some c) = get_current_user d secret now None (Some c) \<and>
      get_optional_user d secret now creds (Some c) =
        get_optional_user d secret now None (Some c) \<and>
      (decode_token secret now c = (Some p, lg) \<and> sub p = Some uid \<and> uid \<noteq> [] \<and>
       first (\<lambda>u. User_id u = uid) (users d) = Some user \<longrightarrow>
         get_current_user d secret now creds (Some c) = (Inr user, lg) \<and>
         get_optional_user d secret now creds (Some c) = (Some user, lg))) \<and>
   (\<not> truthy_token c \<longrightarrow>
      c = Undecodable [] \<and>
      get_current_user d secret now creds (Some c) = get_current_user d secret now creds None \<and>
      get_optional_user d secret now creds (Some c) = get_optional_user d secret now creds None \<and>
      (creds = Some h \<and> truthy_token (credentials h) \<and>
       decode_token secret now (credentials h) = (Some p, lg) \<and>
       sub p = Some uid \<and> uid \<noteq> [] \<and>
       first (\<lambda>u. User_id u = uid) (users d) = Some user \<longrightarrow>
         get_current_user d secret now creds (Some c) = (Inr user, lg) \<and>
         get_optional_user d secret now creds (Some c) = (Some user, lg)))"
  by (auto simp: get_current_user_def get_optional_user_def truthy_payload_def
      truthy_token_def Let_def)

lemma decode_token_bob:
  "decode_token ''k'' 100 token_bob =
     (Some \<lparr>sub = Some ''ub'', exp = Some 604800, iat = Some 0\<rparr>, [])"
  by (simp add: decode_token_def token_bob_def create_access_token_def jwt_encode_def
      timedelta_days_def JWT_EXPIRATION_DAYS_def)

lemma decode_token_alice:
  "decode_token ''k'' 100 token_alice =
     (Some \<lparr>sub = Some ''ua'', exp = Some 604800, iat = Some 0\<rparr>, [])"
  by (simp add: decode_token_def token_alice_def create_access_token_def jwt_encode_def
      timedelta_days_def JWT_EXPIRATION_DAYS_def)

text \<open>
  The cookie holds \<open>bob\<close>'s token and the header \<open>alice\<close>'s: \<open>bob\<close> is resolved. The
  cookie is empty and the header holds \<open>alice\<close>'s token: \<open>alice\<close> is resolved, as for the
  request without the cookie.
\<close>

theorem cookie_precedence_witness:
  "truthy_token token_bob \<and>
   decode_token ''k'' 100 token_bob =
     (Some \<lparr>sub = Some ''ub'', exp = Some 604800, iat = Some 0\<rparr>, []) \<and>
   first (\<lambda>u. User_id u = ''ub'') (users db1) = Some bob \<and>
   get_current_user db1 ''k'' 100 (Some bearer_alice) (Some token_bob) = (Inr bob, []) \<and>
   get_optional_user db1 ''k'' 100 (Some bearer_alice) (Some token_bob) = (Some bob, []) \<and>
   \<not> truthy_token (Undecodable []) \<and> truthy_token (credentials bearer_alice) \<and>
   decode_token ''k'' 100 (credentials bearer_alice) =
     (Some \<lparr>sub = Some ''ua'', exp = Some 604800, iat = Some 0\<rparr>, []) \<and>
   first (\<lambda>u. User_id u = ''ua'') (users db1) = Some alice \<and>
   get_current_user db1 ''k'' 100 (Some bearer_alice) (Some (Undecodable [])) =
     get_current_user db1 ''k'' 100 (Some bearer_alice) None \<and>
   get_current_user db1 ''k'' 100 (Some bearer_alice) (Some (Undecodable [])) = (Inr alice, []) \<and>
   get_optional_user db1 ''k'' 100 (Some bearer_alice) (Some (Undecodable [])) = (Some alice, [])"
proof -
  have t: "truthy_token token_bob"
    by (simp add: truthy_token_def token_bob_def create_access_token_def jwt_encode_def)
  have u: "first (\<lambda>u. User_id u = ''ub'') (users db1) = Some bob"
    by (simp add: first_def sample_defs)
  have h: "decode_token ''k'' 100 token_bob =
      (Some \<lparr>sub = Some ''ub'', exp = Some 604800, iat = Some 0\<rparr>, []) \<and>
    sub \<lparr>sub = Some ''ub'', exp = Some 604800, iat = Some 0\<rparr> = Some ''ub'' \<and>
    ''ub'' \<noteq> [] \<and> first (\<lambda>u. User_id u = ''ub'') (users db1) = Some bob"
    using decode_token_bob u by simp
  from cookie_precedence [where c = token_bob and d = db1 and secret = "''k''" and now = 100
      and creds = "Some bearer_alice" and uid = "''ub''" and user = bob and lg = "[]"
      and p = "\<lparr>sub = Some ''ub'', exp = Some 604800, iat = Some 0\<rparr>"] t h
  have a: "get_current_user db1 ''k'' 100 (Some bearer_alice) (Some token_bob) = (Inr bob, []) \<and>
    get_optional_user db1 ''k'' 100 (Some bearer_alice) (Some token_bob) = (Some bob, [])"
    by blast
  have e: "\<not> truthy_token (Undecodable [])"
    by (simp add: truthy_token_def)
  have ta: "truthy_token (credentials bearer_alice)"
    by (simp add: truthy_token_def bearer_alice_def token_alice_def create_access_token_def
        jwt_encode_def)
  have da: "decode_token ''k'' 100 (credentials bearer_alice) =
     (Some \<lparr>sub = Some ''ua'', exp = Some 604800, iat = Some 0\<rparr>, [])"
    using decode_token_alice by (simp add: bearer_alice_def)
  have ua: "first (\<lambda>u. User_id u = ''ua'') (users db1) = Some alice"
    by (simp add: first_def sample_defs)
  have g: "Some bearer_alice = Some bearer_alice \<and> truthy_token (credentials bearer_alice) \<and>
    decode_token ''k'' 100 (credentials bearer_alice) =
      (Some \<lparr>sub = Some ''ua'', exp = Some 604800, iat = Some 0\<rparr>, []) \<and>
    sub \<lparr>sub = Some ''ua'', exp = Some 604800, iat = Some 0\<rparr> = Some ''ua'' \<and>
    ''ua'' \<noteq> [] \<and> first (\<lambda>u. User_id u = ''ua'') (users db1) = Some alice"
    using ta da ua by simp
  from cookie_precedence [where c = "Undecodable []" and d = db1 and secret = "''k''"
      and now = 100 and creds = "Some bearer_alice" and h = bearer_alice and uid = "''ua''"
      and user = alice and lg = "[]"
      and p = "\<lparr>sub = Some ''ua'', exp = Some 604800, iat = Some 0\<rparr>"] e g
  have b: "get_current_user db1 ''k'' 100 (Some bearer_alice) (Some (Undecodable [])) =
      get_current_user db1 ''k'' 100 (Some bearer_alice) None \<and>
    get_current_user db1 ''k'' 100 (Some bearer_alice) (Some (Undecodable [])) = (Inr alice, []) \<and>
    get_optional_user db1 ''k'' 100 (Some bearer_alice) (Some (Undecodable [])) = (Some alice, [])"
    by blast
  from t u decode_token_bob a e ta da ua b show ?thesis by blast
qed

text \<open>
  C3 as stated fails for a cookie with an empty value (\<^verbatim>\<open>Cookie: auth_token=\<close>): the
  test \<^verbatim>\<open>if auth_token:\<close> is false for the empty string, so the header's token is used.
  With \<open>alice\<close>'s token in the header, \<open>alice\<close> is resolved; without the header the same
  cookie is rejected.
\<close>

theorem cookie_precedence_counterexample:
  "get_current_user db1 ''k'' 100 (Some bearer_alice) (Some (Undecodable [])) = (Inr alice, []) \<and>
   get_current_user db1 ''k'' 100 None (Some (Undecodable [])) =
     (Inl (HTTPException 401 ''Not authenticated''), []) \<and>
   get_optional_user db1 ''k'' 100 (Some bearer_alice) (Some (Undecodable [])) = (Some alice, []) \<and>
   get_optional_user db1 ''k'' 100 None (Some (Undecodable [])) = (None, [])"
  by (simp add: get_optional_user_def get_current_user_def truthy_token_def truthy_payload_def
      decode_token_def bearer_alice_def token_alice_def create_access_token_def jwt_encode_def
      timedelta_days_def JWT_EXPIRATION_DAYS_def first_def Let_def sample_defs)

section \<open>Redirect targets\<close>

lemma find_None_list_ex: "find P xs = None \<longleftrightarrow> \<not> list_ex P xs"
  by (auto simp: find_None_iff list_ex_iff)

lemma allowed_cfg_dev: "allowed cfg_dev = [''https://charts.example'', ''https://app.example'']"
  by (simp add: allowed_def cfg_dev_def strip_def isspace_def)

lemma allowed_cfg_live: "allowed cfg_live = [''https://charts.example'', ''https://app.example'']"
  by (simp add: allowed_def cfg_live_def cfg_dev_def strip_def isspace_def)

lemma allowed_cfg_unset: "allowed cfg_unset = [''http://localhost:5173'']"
  by (simp add: allowed_def cfg_unset_def strip_def isspace_def)

lemma matches_begins: "matches_allowed cfg t \<Longrightarrow> begins_with_allowed cfg t"
  by (auto simp: matches_allowed_def begins_with_allowed_def matches_origin_def startswith_def
      list_ex_iff)

lemma matches_nonempty: "matches_allowed cfg t \<Longrightarrow> t \<noteq> []"
  by (auto simp: matches_allowed_def matches_origin_def list_ex_iff)

text \<open>
  C2, as the code has it by design. The allowed origins are \<^verbatim>\<open>FRONTEND_URL\<close> and the
  stripped, non-empty entries of \<^verbatim>\<open>ALLOWED_FRONTEND_DOMAINS\<close>.
  \<^verbatim>\<open>_safe_frontend_target\<close> returns the default frontend URL for an absent or empty
  target; returns a target that matches an allowed origin unchanged, in either mode;
  returns a localhost-style target unchanged in non-production mode; and replaces by the
  default frontend URL, logging the rejection, every non-empty target that does not even
  begin with an allowed origin, unless it is a localhost-style target in non-production
  mode. In production mode a localhost-style target gets no treatment of its own: it is
  returned unchanged when it matches an allowed origin and replaced by the default when
  it begins with none.
\<close>

theorem safe_frontend_target_spec:
  "((target = None \<or> target = Some []) \<longrightarrow>
      safe_frontend_target cfg target = (FRONTEND_URL cfg, [])) \<and>
   (matches_allowed cfg t \<longrightarrow> safe_frontend_target cfg (Some t) = (t, [])) \<and>
   (\<not> IS_PRODUCTION cfg \<and> localhost_style t \<longrightarrow> safe_frontend_target cfg (Some t) = (t, [])) \<and>
   (t \<noteq> [] \<and> \<not> begins_with_allowed cfg t \<and> (IS_PRODUCTION cfg \<or> \<not> localhost_style t) \<longrightarrow>
      safe_frontend_target cfg (Some t) =
        (FRONTEND_URL cfg, [Warning (''Blocked redirect to untrusted domain: '' @ t)]))"
proof (intro conjI impI)
  assume "target = None \<or> target = Some []"
  then show "safe_frontend_target cfg target = (FRONTEND_URL cfg, [])"
    by (auto simp: safe_frontend_target_def)
next
  assume m: "matches_allowed cfg t"
  then have ne: "t \<noteq> []" by (rule matches_nonempty)
  from m have "begins_with_allowed cfg t" by (rule matches_begins)
  then have "find (\<lambda>domain. startswith t domain) (allowed cfg) \<noteq> None"
    by (simp add: begins_with_allowed_def find_None_list_ex)
  then show "safe_frontend_target cfg (Some t) = (t, [])" using ne
    by (auto simp: safe_frontend_target_def split: option.splits)
next
  assume "\<not> IS_PRODUCTION cfg \<and> localhost_style t"
  then show "safe_frontend_target cfg (Some t) = (t, [])"
    by (auto simp: safe_frontend_target_def localhost_style_def startswith_def)
next
  assume a: "t \<noteq> [] \<and> \<not> begins_with_allowed cfg t \<and> (IS_PRODUCTION cfg \<or> \<not> localhost_style t)"
  then have "find (\<lambda>domain. startswith t domain) (allowed cfg) = None"
    by (simp add: begins_with_allowed_def find_None_list_ex)
  with a show "safe_frontend_target cfg (Some t) =
        (FRONTEND_URL cfg, [Warning (''Blocked redirect to untrusted domain: '' @ t)])"
    by (auto simp: safe_frontend_target_def localhost_style_def)
qed

theorem safe_frontend_target_spec_witness:
  "safe_frontend_target cfg_dev (Some []) = (''https://charts.example'', []) \<and>
   matches_allowed cfg_dev ''https://app.example/cb'' \<and>
   safe_frontend_target cfg_dev (Some ''https://app.example/cb'') = (''https://app.example/cb'', []) \<and>
   \<not> IS_PRODUCTION cfg_dev \<and> localhost_style ''http://localhost:3000/cb'' \<and>
   safe_frontend_target cfg_dev (Some ''http://localhost:3000/cb'') =
     (''http://localhost:3000/cb'', []) \<and>
   \<not> begins_with_allowed cfg_dev ''https://evil.example/'' \<and>
   \<not> localhost_style ''https://evil.example/'' \<and>
   fst (safe_frontend_target cfg_dev (Some ''https://evil.example/'')) = ''https://charts.example'' \<and>
   IS_PRODUCTION cfg_live \<and> \<not> begins_with_allowed cfg_live ''http://localhost:3000/cb'' \<and>
   fst (safe_frontend_target cfg_live (Some ''http://localhost:3000/cb'')) = ''https://charts.example''"
proof -
  have h1: "matches_allowed cfg_dev ''https://app.example/cb''"
    by (simp add: matches_allowed_def matches_origin_def allowed_cfg_dev)
  have h2: "\<not> IS_PRODUCTION cfg_dev" "IS_PRODUCTION cfg_live"
    "FRONTEND_URL cfg_dev = ''https://charts.example''"
    "FRONTEND_URL cfg_live = ''https://charts.example''"
    by (simp_all add: cfg_dev_def cfg_live_def)
  have h3: "localhost_style ''http://localhost:3000/cb''" "\<not> localhost_style ''https://evil.example/''"
    by (simp_all add: localhost_style_def startswith_def)
  have h4: "\<not> begins_with_allowed cfg_dev ''https://evil.example/''"
    by (simp add: begins_with_allowed_def allowed_cfg_dev startswith_def)
  have h5: "\<not> begins_with_allowed cfg_live ''http://localhost:3000/cb''"
    by (simp add: begins_with_allowed_def allowed_cfg_live startswith_def)
  have a: "safe_frontend_target cfg_dev (Some []) = (''https://charts.example'', [])"
    using safe_frontend_target_spec [where cfg = cfg_dev and target = "Some []"] h2 by simp
  have b: "safe_frontend_target cfg_dev (Some ''https://app.example/cb'') =
      (''https://app.example/cb'', [])"
    using safe_frontend_target_spec [where cfg = cfg_dev and t = "''https://app.example/cb''"] h1
    by simp
  have c: "safe_frontend_target cfg_dev (Some ''http://localhost:3000/cb'') =
      (''http://localhost:3000/cb'', [])"
    using safe_frontend_target_spec [where cfg = cfg_dev and t = "''http://localhost:3000/cb''"]
      h2 h3 by simp
  have e: "fst (safe_frontend_target cfg_dev (Some ''https://evil.example/'')) =
      ''https://charts.example''"
    using safe_frontend_target_spec [where cfg = cfg_dev and t = "''https://evil.example/''"]
      h2 h3 h4 by simp
  have g: "fst (safe_frontend_target cfg_live (Some ''http://localhost:3000/cb'')) =
      ''https://charts.example''"
    using safe_frontend_target_spec [where cfg = cfg_live and t = "''http://localhost:3000/cb''"]
      h2 h5 by simp
  show ?thesis using h1 h2 h3 h4 h5 a b c e g by simp
qed

text \<open>
  C2 as stated fails in production mode when a localhost origin is itself allowed. With
  \<^verbatim>\<open>FRONTEND_URL\<close> unset its default is \<^verbatim>\<open>http://localhost:5173\<close>; the localhost target
  below is a path on that very origin, so it matches an allowed origin: it is returned
  unchanged and is not the default URL.
\<close>

theorem safe_frontend_target_localhost_counterexample:
  "IS_PRODUCTION cfg_unset \<and> localhost_style ''http://localhost:5173/x'' \<and>
   matches_allowed cfg_unset ''http://localhost:5173/x'' \<and>
   safe_frontend_target cfg_unset (Some ''http://localhost:5173/x'') =
     (''http://localhost:5173/x'', []) \<and>
   FRONTEND_URL cfg_unset = ''http://localhost:5173'' \<and>
   fst (safe_frontend_target cfg_unset (Some ''http://localhost:5173/x'')) \<noteq> FRONTEND_URL cfg_unset"
  by (simp add: safe_frontend_target_def allowed_cfg_unset localhost_style_def startswith_def
      matches_allowed_def matches_origin_def)
     (simp add: cfg_unset_def)

text \<open>
  Between the two cases of C2 lies a target that begins with an allowed origin without
  matching it. The loop of \<^verbatim>\<open>_safe_frontend_target\<close> tests \<^verbatim>\<open>target.startswith(domain)\<close>
  only, so in production mode it returns unchanged a target on another host whose name
  begins with \<^verbatim>\<open>https://app.example\<close>, although the function is meant to block untrusted
  domains.
\<close>

lemma safe_frontend_target_prefix_only:
  "IS_PRODUCTION cfg_live \<and>
   \<not> matches_allowed cfg_live ''https://app.example.evil.org/cb'' \<and>
   begins_with_allowed cfg_live ''https://app.example.evil.org/cb'' \<and>
   safe_frontend_target cfg_live (Some ''https://app.example.evil.org/cb'') =
     (''https://app.example.evil.org/cb'', [])"
  by (simp add: safe_frontend_target_def allowed_cfg_live startswith_def
      matches_allowed_def matches_origin_def begins_with_allowed_def)
     (simp add: cfg_live_def cfg_dev_def)

end
